theory Spec2Isabelle
  imports Main
begin

section \<open>Text\<close>

text \<open>
  Text that comes from a client or is stored in the database is a sequence of Unicode
  code points, each a natural number: \<^verbatim>\<open>String.prototype.trim\<close> and the \<^verbatim>\<open>LIKE\<close>
  operator work on code points beyond ASCII. \<open>str\<close> gives the code points of an ASCII
  literal.
\<close>

type_synonym ustring = "nat list"

definition str :: "string \<Rightarrow> ustring" where
  "str s = map of_char s"

section \<open>Storage schema\<close>

text \<open>
  The three tables of the migration (\<^verbatim>\<open>CREATE TABLE bookmark\<close>, \<^verbatim>\<open>bookmark_tag\<close>,
  \<^verbatim>\<open>tag\<close>). SQLite integers are \<open>int\<close>, the boolean column \<open>finished\<close> is \<open>bool\<close>.
\<close>

record bookmark =
  b_id :: int
  b_name :: ustring
  b_href :: ustring
  b_finished :: bool
  b_created_at :: int
  b_updated_at :: int

record tag =
  t_id :: int
  t_name :: ustring
  t_variant :: ustring
  t_created_at :: int
  t_updated_at :: int

record bookmark_tag =
  bt_bookmark_id :: int
  bt_tag_id :: int
  bt_created_at :: int

text \<open>
  A table is the list of its rows in rowid order. \<open>bookmark_seq\<close> is the counter that
  \<^verbatim>\<open>AUTOINCREMENT\<close> keeps for the bookmark table. \<open>foreign_keys\<close> says whether the
  connection enforces the \<^verbatim>\<open>FOREIGN KEY ... ON DELETE no action\<close> clauses; the
  connection is opened in \<^verbatim>\<open>./db\<close>, so both settings are covered.
\<close>

record database =
  bookmark_tbl :: "bookmark list"
  tag_tbl :: "tag list"
  bookmark_tag_tbl :: "bookmark_tag list"
  bookmark_seq :: int
  foreign_keys :: bool

text \<open>
  What a statement can throw: a refused delete (\<open>ConstraintError\<close>), an insert when
  the largest rowid has been used (\<open>FullError\<close>), any other failure of the engine
  (\<open>StorageError\<close>).
\<close>

datatype error = ConstraintError | FullError | StorageError

text \<open>A request body that meets \<^verbatim>\<open>t.Object({ name: t.String(), href: t.String() })\<close>.\<close>

record body =
  body_name :: ustring
  body_href :: ustring

text \<open>
  An element of a list response: a bookmark row, with the \<^verbatim>\<open>tags\<close> property that
  \<^verbatim>\<open>getBookmarks\<close> adds (\<^verbatim>\<open>SelectBookmarkWithOptionalTags\<close>); \<open>None\<close> is a row object
  without that property.
\<close>

record item =
  i_row :: bookmark
  i_tags :: "tag list option"

definition plain :: "bookmark \<Rightarrow> item" where
  "plain r = \<lparr>i_row = r, i_tags = None\<rparr>"

section \<open>Column defaults of the table declaration\<close>

text \<open>Modelled from the spec: the \<^verbatim>\<open>createdAt\<close> default of the bookmark table in
  \<^verbatim>\<open>./db/schema\<close>, which is not among the sources. The spec: "createdAt (integer
  timestamp, set at creation)", "creates a row with finished=false,
  createdAt=updatedAt=now". The argument is the clock reading at the insert.\<close>

definition createdAt_default :: "int \<Rightarrow> int" where
  "createdAt_default now = now"

text \<open>Modelled from the spec: the \<^verbatim>\<open>updatedAt\<close> default of the bookmark table in
  \<^verbatim>\<open>./db/schema\<close>, which is not among the sources. The spec: "updatedAt (integer
  timestamp, set at creation and on every update)".\<close>

definition updatedAt_default :: "int \<Rightarrow> int" where
  "updatedAt_default now = now"

text \<open>Modelled from the spec: the value that the bookmark table of \<^verbatim>\<open>./db/schema\<close>
  (not among the sources) gives \<^verbatim>\<open>updatedAt\<close> on an update. The spec: "replaces those
  fields and bumps updatedAt", "sets finished and bumps updatedAt". The argument is the
  clock reading at the update.\<close>

definition updatedAt_onUpdate :: "int \<Rightarrow> int" where
  "updatedAt_onUpdate now = now"

section \<open>Statements\<close>

text \<open>
  \<^verbatim>\<open>id integer PRIMARY KEY AUTOINCREMENT\<close>: the new id is one more than the largest id
  the table holds or ever held. When that is the largest rowid, \<open>2^63 - 1\<close>, the insert
  is refused.
\<close>

definition max_rowid :: int where
  "max_rowid = 9223372036854775807"

definition last_id :: "database \<Rightarrow> int" where
  "last_id db = fold max (map b_id (bookmark_tbl db)) (bookmark_seq db)"

text \<open>\<^verbatim>\<open>drizzleDB.insert(bookmark).values(body)\<close>; \<open>finished\<close> takes its \<^verbatim>\<open>DEFAULT false\<close>.\<close>

definition new_row :: "int \<Rightarrow> body \<Rightarrow> int \<Rightarrow> bookmark" where
  "new_row i b now =
     \<lparr>b_id = i, b_name = body_name b, b_href = body_href b, b_finished = False,
      b_created_at = createdAt_default now, b_updated_at = updatedAt_default now\<rparr>"

definition insert_bookmark :: "body \<Rightarrow> int \<Rightarrow> database \<Rightarrow> error + database" where
  "insert_bookmark b now db =
     (if last_id db < max_rowid
      then (let i = last_id db + 1
            in Inr (db\<lparr>bookmark_tbl := bookmark_tbl db @ [new_row i b now], bookmark_seq := i\<rparr>))
      else Inl FullError)"

text \<open>\<^verbatim>\<open>drizzleDB.update(bookmark).set(...).where(...)\<close>: every row the condition selects.\<close>

definition update_bookmark ::
  "(bookmark \<Rightarrow> bookmark) \<Rightarrow> (bookmark \<Rightarrow> bool) \<Rightarrow> int \<Rightarrow> database \<Rightarrow> database" where
  "update_bookmark set_cols cond now db =
     db\<lparr>bookmark_tbl :=
          map (\<lambda>r. if cond r then (set_cols r)\<lparr>b_updated_at := updatedAt_onUpdate now\<rparr> else r)
              (bookmark_tbl db)\<rparr>"

definition set_body :: "body \<Rightarrow> bookmark \<Rightarrow> bookmark" where
  "set_body b r = r\<lparr>b_name := body_name b, b_href := body_href b\<rparr>"

definition set_finished :: "bool \<Rightarrow> bookmark \<Rightarrow> bookmark" where
  "set_finished f r = r\<lparr>b_finished := f\<rparr>"

text \<open>
  \<^verbatim>\<open>drizzleDB.delete(bookmark).where(...)\<close>. With foreign keys enforced, deleting a row
  that an association row references is refused (\<^verbatim>\<open>ON DELETE no action\<close>).
\<close>

definition referenced :: "database \<Rightarrow> bookmark \<Rightarrow> bool" where
  "referenced db r = list_ex (\<lambda>bt. bt_bookmark_id bt = b_id r) (bookmark_tag_tbl db)"

definition delete_bookmark :: "(bookmark \<Rightarrow> bool) \<Rightarrow> database \<Rightarrow> error + database" where
  "delete_bookmark cond db =
     (if foreign_keys db \<and> list_ex (\<lambda>r. cond r \<and> referenced db r) (bookmark_tbl db)
      then Inl ConstraintError
      else Inr (db\<lparr>bookmark_tbl := filter (\<lambda>r. \<not> cond r) (bookmark_tbl db)\<rparr>))"

text \<open>\<^verbatim>\<open>.where(eq(bookmark.name, body.name)).get()\<close>: the first matching row, or undefined.\<close>

definition get_by_name :: "ustring \<Rightarrow> database \<Rightarrow> bookmark option" where
  "get_by_name n db =
     (case filter (\<lambda>r. b_name r = n) (bookmark_tbl db) of [] \<Rightarrow> None | r # _ \<Rightarrow> Some r)"

text \<open>\<^verbatim>\<open>getBookmarkTags\<close>: the tags joined to the association rows of one bookmark.\<close>

definition getBookmarkTags :: "database \<Rightarrow> int \<Rightarrow> tag list" where
  "getBookmarkTags db i =
     concat (map (\<lambda>t. concat (map (\<lambda>bt. if t_id t = bt_tag_id bt \<and> bt_bookmark_id bt = i
                                         then [t] else [])
                                  (bookmark_tag_tbl db)))
                 (tag_tbl db))"

subsection \<open>Numbers in the path\<close>

text \<open>
  \<^verbatim>\<open>t.Numeric()\<close> turns the path segment into a JavaScript number, a double.
  \<open>bits m\<close> is the length of \<open>m\<close> in binary. \<open>to_double n\<close> is the double nearest to
  the integer \<open>n\<close>, ties to the even significand of 53 bits; the result is \<open>None\<close> when
  that is beyond the largest double, where the number is \<^verbatim>\<open>Infinity\<close>.
\<close>

fun bits :: "nat \<Rightarrow> nat" where
  "bits m = (if m = 0 then 0 else Suc (bits (m div 2)))"

declare bits.simps [simp del]

definition to_double :: "int \<Rightarrow> int option" where
  "to_double n =
     (let m = nat \<bar>n\<bar>;
          e = bits m - 53;
          q = m div 2 ^ e;
          r = m mod 2 ^ e;
          q' = (if 2 ^ e < 2 * r \<or> (2 * r = 2 ^ e \<and> odd q) then q + 1 else q)
      in if bits (q' * 2 ^ e) \<le> 1024 then Some (sgn n * int (q' * 2 ^ e)) else None)"

text \<open>
  A path segment where a number is expected: the decimal integer \<open>n\<close>; a number that
  decodes to a double with a fractional part, such as \<^verbatim>\<open>1.5\<close>; or text that is not a
  number.
\<close>

datatype segment = Whole int | Fractional | NotNumeric

text \<open>
  The decoded segment: \<open>None\<close> when the schema refuses it, otherwise the number, where
  \<open>Some i\<close> is the integer \<open>i\<close> and \<open>None\<close> a number that is no integer.
\<close>

definition numeric :: "segment \<Rightarrow> int option option" where
  "numeric s =
     (case s of Whole n \<Rightarrow> Some (to_double n) | Fractional \<Rightarrow> Some None | NotNumeric \<Rightarrow> None)"

text \<open>\<^verbatim>\<open>eq(bookmark.id, params.id)\<close>.\<close>

definition id_eq :: "int option \<Rightarrow> bookmark \<Rightarrow> bool" where
  "id_eq d r = (d = Some (b_id r))"

subsection \<open>The LIKE operator and \<^verbatim>\<open>String.prototype.trim\<close>\<close>

definition lower :: "nat \<Rightarrow> nat" where
  "lower c = (if 65 \<le> c \<and> c \<le> 90 then c + 32 else c)"

text \<open>
  \<open>like_match p s\<close>: the text \<open>s\<close> matches the pattern \<open>p\<close>; \<^verbatim>\<open>%\<close> (code 37) stands
  for any run of characters, \<^verbatim>\<open>_\<close> (code 95) for one, ASCII letters compare without
  case.
\<close>

fun like_match :: "ustring \<Rightarrow> ustring \<Rightarrow> bool" where
  "like_match [] [] = True"
| "like_match [] (c # cs) = False"
| "like_match (p # ps) [] = (p = 37 \<and> like_match ps [])"
| "like_match (p # ps) (c # cs) =
     (if p = 37 then like_match ps (c # cs) \<or> like_match (p # ps) cs
      else if p = 95 then like_match ps cs
      else lower p = lower c \<and> like_match ps cs)"

text \<open>The operator reads pattern and text up to the first NUL.\<close>

definition cstring :: "ustring \<Rightarrow> ustring" where
  "cstring s = takeWhile (\<lambda>c. c \<noteq> 0) s"

definition sql_like :: "ustring \<Rightarrow> ustring \<Rightarrow> bool" where
  "sql_like p s = like_match (cstring p) (cstring s)"

text \<open>\<^verbatim>\<open>select().from(bookmark).where(like(bookmark.name, pattern))\<close>.\<close>

definition search_name :: "ustring \<Rightarrow> database \<Rightarrow> bookmark list" where
  "search_name pat db = filter (\<lambda>r. sql_like pat (b_name r)) (bookmark_tbl db)"

text \<open>
  The white space and line terminators of ECMAScript, which \<^verbatim>\<open>trim\<close> removes at
  both ends.
\<close>

definition is_space :: "nat \<Rightarrow> bool" where
  "is_space c =
     (c \<in> {9, 10, 11, 12, 13, 32, 160, 5760, 8232, 8233, 8239, 8287, 12288, 65279}
      \<or> (8192 \<le> c \<and> c \<le> 8202))"

definition trim :: "ustring \<Rightarrow> ustring" where
  "trim s = rev (dropWhile is_space (rev (dropWhile is_space s)))"

text \<open>The pattern \<^verbatim>\<open>`%${search}%`\<close>.\<close>

definition wrap :: "ustring \<Rightarrow> ustring" where
  "wrap s = 37 # s @ [37]"

section \<open>Requests and responses\<close>

text \<open>
  A request to a route of the \<^verbatim>\<open>/bookmarks\<close> group, as it arrives: the query
  parameter \<open>q\<close> if present, the path segments, and the body, which is \<open>None\<close> when
  it does not meet the body schema. The segment for \<^verbatim>\<open>:finished\<close> is \<open>None\<close> when it
  is neither \<^verbatim>\<open>true\<close> nor \<^verbatim>\<open>false\<close>.
\<close>

datatype route =
    GetBookmarks "ustring option"
  | PostBookmarks "body option"
  | PutBookmarks "body option"
  | PutBookmarkId segment "body option"
  | PutBookmarkCheck segment "bool option"
  | DeleteBookmark segment

datatype target = Root | Bookmarks route

record request =
  bearer :: "ustring option"
  target :: target

datatype payload =
    Text string
  | Items "item list"
  | Created bool
  | NoBody
  | Failure error
  | ValidationFailure

text \<open>
  A response: the status, the headers that the application code sets on \<^verbatim>\<open>set.headers\<close>
  (the plugins for cross-origin requests and server timing add their own), and the
  returned value. A handler that returns normally is answered with the default status
  200, one that throws with status 500; a request that does not meet the schema of its
  route is answered with status 422 by the framework.
\<close>

record response =
  status :: nat
  headers :: "(string \<times> string) list"
  payload :: payload

definition ok :: "payload \<Rightarrow> response" where
  "ok p = \<lparr>status = 200, headers = [], payload = p\<rparr>"

definition failed :: "error \<Rightarrow> response" where
  "failed e = \<lparr>status = 500, headers = [], payload = Failure e\<rparr>"

definition not_found :: response where
  "not_found = \<lparr>status = 404, headers = [], payload = Text ''NOT_FOUND''\<rparr>"

definition invalid :: response where
  "invalid = \<lparr>status = 422, headers = [], payload = ValidationFailure\<rparr>"

definition unauthorized :: response where
  "unauthorized =
     \<lparr>status = 400,
      headers = [(''WWW-Authenticate'',
                  ''Bearer realm='' @ [CHR 0x27] @ ''sign'' @ [CHR 0x27] @ '', error=''
                    @ [CHR 0x22] @ ''invalid_request'' @ [CHR 0x22])],
      payload = Text ''Unauthorized''\<rparr>"

text \<open>
  The guard's \<^verbatim>\<open>beforeHandle\<close>; the first argument is \<^verbatim>\<open>env.BEARER_TOKEN\<close>. A result
  \<open>Some r\<close> is the response returned in place of the route handler, \<open>None\<close> lets the
  request through. In \<^verbatim>\<open>src/index.js\<close> the test is \<^verbatim>\<open>!bearer || bearer !== token\<close>, in
  the file with the upsert response it is \<^verbatim>\<open>bearer === undefined || bearer !== token\<close>.
\<close>

definition beforeHandle_index :: "ustring option \<Rightarrow> ustring option \<Rightarrow> response option" where
  "beforeHandle_index token b =
     (if (b = None \<or> b = Some []) \<or> b \<noteq> token then Some unauthorized else None)"

definition beforeHandle_part :: "ustring option \<Rightarrow> ustring option \<Rightarrow> response option" where
  "beforeHandle_part token b =
     (if b = None \<or> b \<noteq> token then Some unauthorized else None)"

definition respond :: "(error + payload) \<times> 's \<Rightarrow> response \<times> 's" where
  "respond x = (case x of (Inl e, s) \<Rightarrow> (failed e, s) | (Inr p, s) \<Rightarrow> (ok p, s))"

text \<open>
  The schemas of the routes (\<^verbatim>\<open>params\<close>, \<^verbatim>\<open>body\<close>, \<^verbatim>\<open>query\<close>): whether the request
  meets the schema of its route.
\<close>

fun well_formed :: "route \<Rightarrow> bool" where
  "well_formed (GetBookmarks q) = True"
| "well_formed (PostBookmarks b) = (b \<noteq> None)"
| "well_formed (PutBookmarks b) = (b \<noteq> None)"
| "well_formed (PutBookmarkId s b) = (numeric s \<noteq> None \<and> b \<noteq> None)"
| "well_formed (PutBookmarkCheck s f) = (numeric s \<noteq> None \<and> f \<noteq> None)"
| "well_formed (DeleteBookmark s) = (numeric s \<noteq> None)"

text \<open>
  A handler gets the clock reading of the request and the state, and returns its value
  (or the error it throws) and the state. The handlers that the versions share:
\<close>

definition post_handler ::
  "body \<Rightarrow> int \<Rightarrow> database \<Rightarrow> (error + payload) \<times> database" where
  "post_handler b now db =
     (case insert_bookmark b now db of
        Inl e \<Rightarrow> (Inl e, db)
      | Inr db' \<Rightarrow> (Inr NoBody, db'))"

definition put_id_handler ::
  "int option \<Rightarrow> body \<Rightarrow> int \<Rightarrow> database \<Rightarrow> (error + payload) \<times> database" where
  "put_id_handler d b now db = (Inr NoBody, update_bookmark (set_body b) (id_eq d) now db)"

definition check_handler ::
  "int option \<Rightarrow> bool \<Rightarrow> int \<Rightarrow> database \<Rightarrow> (error + payload) \<times> database" where
  "check_handler d f now db = (Inr NoBody, update_bookmark (set_finished f) (id_eq d) now db)"

definition delete_handler ::
  "int option \<Rightarrow> int \<Rightarrow> database \<Rightarrow> (error + payload) \<times> database" where
  "delete_handler d now db =
     (case delete_bookmark (id_eq d) db of
        Inl e \<Rightarrow> (Inl e, db)
      | Inr db' \<Rightarrow> (Inr NoBody, db'))"

section \<open>The server with the upsert response (\<^verbatim>\<open>unnamed/part_000\<close>)\<close>

text \<open>\<^verbatim>\<open>SELECT * FROM bookmark ORDER BY id DESC\<close>.\<close>

definition getBookmarks_part :: "database \<Rightarrow> bookmark list" where
  "getBookmarks_part db = sort_key (\<lambda>r. - b_id r) (bookmark_tbl db)"

text \<open>
  The transaction of \<^verbatim>\<open>PUT /bookmarks\<close>; the boolean is what the callback returns. A
  refused insert is thrown and the transaction leaves the database as it was.
\<close>

definition upsert_part :: "body \<Rightarrow> int \<Rightarrow> database \<Rightarrow> error + bool \<times> database" where
  "upsert_part b now db =
     (case get_by_name (body_name b) db of
        None \<Rightarrow>
          (case insert_bookmark b now db of
             Inl e \<Rightarrow> Inl e
           | Inr db' \<Rightarrow> Inr (True, db'))
      | Some bm \<Rightarrow>
          Inr (False, update_bookmark (set_body b) (\<lambda>r. b_name r = body_name b) now db))"

definition put_handler_part ::
  "body \<Rightarrow> int \<Rightarrow> database \<Rightarrow> (error + payload) \<times> database" where
  "put_handler_part b now db =
     (case upsert_part b now db of
        Inl e \<Rightarrow> (Inl e, db)
      | Inr (created, db') \<Rightarrow> (Inr (Created created), db'))"

text \<open>
  The routes under the prefix \<^verbatim>\<open>/bookmarks\<close>. The outer \<open>None\<close> is a method and path
  that the version does not route; the inner \<open>None\<close> is a request that does not meet
  the schema of its route; otherwise the result is the handler on the decoded values.
\<close>

fun routes_part ::
  "route \<Rightarrow> (int \<Rightarrow> database \<Rightarrow> (error + payload) \<times> database) option option" where
  "routes_part (GetBookmarks q) =
     Some (Some (\<lambda>now db. (Inr (Items (map plain (getBookmarks_part db))), db)))"
| "routes_part (PostBookmarks b) = Some (map_option post_handler b)"
| "routes_part (PutBookmarks b) = Some (map_option put_handler_part b)"
| "routes_part (PutBookmarkId s b) =
     Some (case (numeric s, b) of
             (Some d, Some b') \<Rightarrow> Some (put_id_handler d b')
           | _ \<Rightarrow> None)"
| "routes_part (PutBookmarkCheck s f) =
     Some (case (numeric s, f) of
             (Some d, Some f') \<Rightarrow> Some (check_handler d f')
           | _ \<Rightarrow> None)"
| "routes_part (DeleteBookmark s) = Some (map_option delete_handler (numeric s))"

text \<open>
  One request against the application. The root route is outside the guard. For a
  route of the guarded group the framework checks the request against the schema of the
  route first, then runs the guard's \<^verbatim>\<open>beforeHandle\<close>, and runs the handler only when
  that returns nothing.
\<close>

definition app_part :: "ustring option \<Rightarrow> int \<Rightarrow> request \<Rightarrow> database \<Rightarrow> response \<times> database" where
  "app_part token now req db =
     (case target req of
        Root \<Rightarrow> (ok (Text ''Hello, PT API!''), db)
      | Bookmarks r \<Rightarrow>
          (case routes_part r of
             None \<Rightarrow> (not_found, db)
           | Some None \<Rightarrow> (invalid, db)
           | Some (Some h) \<Rightarrow>
               (case beforeHandle_part token (bearer req) of
                  Some resp \<Rightarrow> (resp, db)
                | None \<Rightarrow> respond (h now db))))"

section \<open>The server with search and no cache (\<^verbatim>\<open>src/index.js\<close>, second version)\<close>

definition get_bookmarks_B :: "ustring option \<Rightarrow> database \<Rightarrow> bookmark list" where
  "get_bookmarks_B q db =
     (case q of
        None \<Rightarrow> bookmark_tbl db
      | Some s \<Rightarrow>
          if s = [] then bookmark_tbl db
          else (let search = trim s
                in if length search = 0 then []
                   else search_name (wrap search) db))"

definition get_handler_B ::
  "ustring option \<Rightarrow> int \<Rightarrow> database \<Rightarrow> (error + payload) \<times> database" where
  "get_handler_B q now db = (Inr (Items (map plain (get_bookmarks_B q db))), db)"

text \<open>The same transaction; here the callback returns nothing.\<close>

definition upsert_B :: "body \<Rightarrow> int \<Rightarrow> database \<Rightarrow> error + database" where
  "upsert_B b now db =
     (case get_by_name (body_name b) db of
        None \<Rightarrow> insert_bookmark b now db
      | Some bm \<Rightarrow> Inr (update_bookmark (set_body b) (\<lambda>r. b_name r = body_name b) now db))"

definition put_handler_B ::
  "body \<Rightarrow> int \<Rightarrow> database \<Rightarrow> (error + payload) \<times> database" where
  "put_handler_B b now db =
     (case upsert_B b now db of
        Inl e \<Rightarrow> (Inl e, db)
      | Inr db' \<Rightarrow> (Inr NoBody, db'))"

fun routes_B ::
  "route \<Rightarrow> (int \<Rightarrow> database \<Rightarrow> (error + payload) \<times> database) option option" where
  "routes_B (GetBookmarks q) = Some (Some (get_handler_B q))"
| "routes_B (PostBookmarks b) = Some (map_option post_handler b)"
| "routes_B (PutBookmarks b) = Some (map_option put_handler_B b)"
| "routes_B (PutBookmarkId s b) =
     Some (case (numeric s, b) of
             (Some d, Some b') \<Rightarrow> Some (put_id_handler d b')
           | _ \<Rightarrow> None)"
| "routes_B (PutBookmarkCheck s f) =
     Some (case (numeric s, f) of
             (Some d, Some f') \<Rightarrow> Some (check_handler d f')
           | _ \<Rightarrow> None)"
| "routes_B (DeleteBookmark s) = Some (map_option delete_handler (numeric s))"

definition app_B :: "ustring option \<Rightarrow> int \<Rightarrow> request \<Rightarrow> database \<Rightarrow> response \<times> database" where
  "app_B token now req db =
     (case target req of
        Root \<Rightarrow> (ok (Text ''Hello, Elysia!''), db)
      | Bookmarks r \<Rightarrow>
          (case routes_B r of
             None \<Rightarrow> (not_found, db)
           | Some None \<Rightarrow> (invalid, db)
           | Some (Some h) \<Rightarrow>
               (case beforeHandle_index token (bearer req) of
                  Some resp \<Rightarrow> (resp, db)
                | None \<Rightarrow> respond (h now db))))"

section \<open>The server with the in-memory cache (\<^verbatim>\<open>src/index.js\<close>, first version)\<close>

text \<open>
  The process state: the database, \<^verbatim>\<open>store.bookmarks.items\<close>, the module variable
  \<^verbatim>\<open>isUpdatingBookmarks\<close>, the number of \<^verbatim>\<open>getBookmarks\<close> callbacks that
  \<^verbatim>\<open>setImmediate\<close> has queued and that have not run yet, and what \<^verbatim>\<open>console.error\<close>
  has printed.
\<close>

record app_state =
  storage :: database
  stateBookmarks_items :: "item list"
  isUpdatingBookmarks :: bool
  immediates :: nat
  console :: "error list"

text \<open>
  A query of the storage engine may throw. \<open>faults\<close> says which queries of one
  \<^verbatim>\<open>getBookmarks\<close> run do: the select on the bookmark table, and the tag query per
  bookmark id.
\<close>

record faults =
  select_fault :: "error option"
  tags_fault :: "int \<Rightarrow> error option"

definition no_faults :: faults where
  "no_faults = \<lparr>select_fault = None, tags_fault = (\<lambda>i. None)\<rparr>"

definition select_bookmarks :: "faults \<Rightarrow> database \<Rightarrow> error + bookmark list" where
  "select_bookmarks flt db =
     (case select_fault flt of Some e \<Rightarrow> Inl e | None \<Rightarrow> Inr (bookmark_tbl db))"

definition select_tags :: "faults \<Rightarrow> database \<Rightarrow> int \<Rightarrow> error + tag list" where
  "select_tags flt db i =
     (case tags_fault flt i of Some e \<Rightarrow> Inl e | None \<Rightarrow> Inr (getBookmarkTags db i))"

text \<open>The \<^verbatim>\<open>bookmarks.map\<close> of \<^verbatim>\<open>getBookmarks\<close>; the first query that throws ends it.\<close>

fun bookmarksWithTags :: "faults \<Rightarrow> database \<Rightarrow> bookmark list \<Rightarrow> error + item list" where
  "bookmarksWithTags flt db [] = Inr []"
| "bookmarksWithTags flt db (r # rs) =
     (case select_tags flt db (b_id r) of
        Inl e \<Rightarrow> Inl e
      | Inr ts \<Rightarrow>
          (case bookmarksWithTags flt db rs of
             Inl e \<Rightarrow> Inl e
           | Inr is \<Rightarrow> Inr (\<lparr>i_row = r, i_tags = Some ts\<rparr> # is)))"

text \<open>
  \<^verbatim>\<open>getBookmarks(stateBookmarks)\<close>; \<open>given\<close> says whether the argument is defined. The
  result is the returned array and the state after the call.
\<close>

definition getBookmarks :: "faults \<Rightarrow> bool \<Rightarrow> app_state \<Rightarrow> item list \<times> app_state" where
  "getBookmarks flt given st =
     (case (case select_bookmarks flt (storage st) of
              Inl e \<Rightarrow> Inl e
            | Inr rows \<Rightarrow> bookmarksWithTags flt (storage st) rows) of
        Inr bwt \<Rightarrow> (bwt, if given then st\<lparr>stateBookmarks_items := bwt\<rparr> else st)
      | Inl e \<Rightarrow> ([], st\<lparr>console := console st @ [e]\<rparr>))"

definition updateBookmarks :: "bool \<Rightarrow> app_state \<Rightarrow> app_state" where
  "updateBookmarks given st =
     (if \<not> given then st
      else if isUpdatingBookmarks st then st
      else (let st1 = st\<lparr>isUpdatingBookmarks := True\<rparr>;
                st2 = st1\<lparr>immediates := immediates st1 + 1\<rparr>
            in st2\<lparr>isUpdatingBookmarks := False\<rparr>))"

text \<open>The event loop runs one queued callback: \<^verbatim>\<open>getBookmarks(stateBookmarks)\<close>.\<close>

definition run_immediate :: "faults \<Rightarrow> app_state \<Rightarrow> app_state" where
  "run_immediate flt st =
     (if immediates st = 0 then st
      else snd (getBookmarks flt True (st\<lparr>immediates := immediates st - 1\<rparr>)))"

text \<open>\<^verbatim>\<open>.state('bookmarks', { items: getBookmarks() })\<close> at start.\<close>

definition startup_cached :: "faults \<Rightarrow> database \<Rightarrow> app_state" where
  "startup_cached flt db =
     (case getBookmarks flt False
             \<lparr>storage = db, stateBookmarks_items = [], isUpdatingBookmarks = False,
              immediates = 0, console = []\<rparr> of
        (is, st) \<Rightarrow> st\<lparr>stateBookmarks_items := is\<rparr>)"

definition get_bookmarks_cached :: "ustring option \<Rightarrow> app_state \<Rightarrow> item list" where
  "get_bookmarks_cached q st =
     (case q of
        None \<Rightarrow> stateBookmarks_items st
      | Some s \<Rightarrow>
          if s = [] then stateBookmarks_items st
          else map plain (search_name (wrap s) (storage st)))"

definition get_handler_cached ::
  "ustring option \<Rightarrow> int \<Rightarrow> app_state \<Rightarrow> (error + payload) \<times> app_state" where
  "get_handler_cached q now st = (Inr (Items (get_bookmarks_cached q st)), st)"

text \<open>
  A write handler of this version: the statement on the database, then
  \<^verbatim>\<open>updateBookmarks(store.bookmarks)\<close> when the statement has not thrown.
\<close>

definition then_update ::
  "(int \<Rightarrow> database \<Rightarrow> (error + payload) \<times> database) \<Rightarrow>
   int \<Rightarrow> app_state \<Rightarrow> (error + payload) \<times> app_state" where
  "then_update h now st =
     (case h now (storage st) of
        (Inl e, db') \<Rightarrow> (Inl e, st)
      | (Inr p, db') \<Rightarrow> (Inr p, updateBookmarks True (st\<lparr>storage := db'\<rparr>)))"

text \<open>This version has no \<^verbatim>\<open>PUT /bookmarks\<close> route.\<close>

fun routes_cached ::
  "route \<Rightarrow> (int \<Rightarrow> app_state \<Rightarrow> (error + payload) \<times> app_state) option option" where
  "routes_cached (GetBookmarks q) = Some (Some (get_handler_cached q))"
| "routes_cached (PostBookmarks b) = Some (map_option (\<lambda>b'. then_update (post_handler b')) b)"
| "routes_cached (PutBookmarks b) = None"
| "routes_cached (PutBookmarkId s b) =
     Some (case (numeric s, b) of
             (Some d, Some b') \<Rightarrow> Some (then_update (put_id_handler d b'))
           | _ \<Rightarrow> None)"
| "routes_cached (PutBookmarkCheck s f) =
     Some (case (numeric s, f) of
             (Some d, Some f') \<Rightarrow> Some (then_update (check_handler d f'))
           | _ \<Rightarrow> None)"
| "routes_cached (DeleteBookmark s) =
     Some (map_option (\<lambda>d. then_update (delete_handler d)) (numeric s))"

definition app_cached ::
  "ustring option \<Rightarrow> int \<Rightarrow> request \<Rightarrow> app_state \<Rightarrow> response \<times> app_state" where
  "app_cached token now req st =
     (case target req of
        Root \<Rightarrow> (ok (Text ''Hello, Elysia!''), st)
      | Bookmarks r \<Rightarrow>
          (case routes_cached r of
             None \<Rightarrow> (not_found, st)
           | Some None \<Rightarrow> (invalid, st)
           | Some (Some h) \<Rightarrow>
               (case beforeHandle_index token (bearer req) of
                  Some resp \<Rightarrow> (resp, st)
                | None \<Rightarrow> respond (h now st))))"

text \<open>
  The states the process can be in: after start, after a request, after the event loop
  has run a queued callback.
\<close>

inductive reachable :: "app_state \<Rightarrow> bool" where
  start: "reachable (startup_cached flt db)"
| request: "reachable st \<Longrightarrow> reachable (snd (app_cached token now req st))"
| immediate: "reachable st \<Longrightarrow> reachable (run_immediate flt st)"

section \<open>Auxiliary notions and example data\<close>

text \<open>Every element carries a \<^verbatim>\<open>tags\<close> array.\<close>

definition tagged :: "item list \<Rightarrow> bool" where
  "tagged xs = (\<forall>x\<in>set xs. \<exists>ts. i_tags x = Some ts)"

text \<open>The rows with a given name.\<close>

definition named :: "ustring \<Rightarrow> database \<Rightarrow> bookmark list" where
  "named n db = filter (\<lambda>r. b_name r = n) (bookmark_tbl db)"


text \<open>The id counter of the bookmark table is used up.\<close>

definition table_full :: "database \<Rightarrow> bool" where
  "table_full db = (\<not> last_id db < max_rowid)"

text \<open>The largest magnitude up to which every integer is a double: \<open>2^53\<close>.\<close>

definition exact_limit :: int where
  "exact_limit = 9007199254740992"

definition row1 :: bookmark where
  "row1 = \<lparr>b_id = 1, b_name = str ''docs'', b_href = str ''h1'', b_finished = False,
           b_created_at = 10, b_updated_at = 10\<rparr>"

definition row2 :: bookmark where
  "row2 = \<lparr>b_id = 2, b_name = str ''a b'', b_href = str ''h2'', b_finished = True,
           b_created_at = 11, b_updated_at = 12\<rparr>"

definition tag1 :: tag where
  "tag1 = \<lparr>t_id = 1, t_name = str ''todo'', t_variant = str ''default'', t_created_at = 9,
           t_updated_at = 9\<rparr>"

definition empty_db :: database where
  "empty_db = \<lparr>bookmark_tbl = [], tag_tbl = [], bookmark_tag_tbl = [], bookmark_seq = 0,
               foreign_keys = True\<rparr>"

definition db12 :: database where
  "db12 = \<lparr>bookmark_tbl = [row1, row2], tag_tbl = [tag1],
            bookmark_tag_tbl = [\<lparr>bt_bookmark_id = 1, bt_tag_id = 1, bt_created_at = 10\<rparr>],
            bookmark_seq = 2, foreign_keys = True\<rparr>"

definition state12 :: app_state where
  "state12 = \<lparr>storage = db12,
              stateBookmarks_items = [\<lparr>i_row = row1, i_tags = Some [tag1]\<rparr>,
                                      \<lparr>i_row = row2, i_tags = Some []\<rparr>],
              isUpdatingBookmarks = False, immediates = 0, console = []\<rparr>"

text \<open>Rows with the ids \<open>2^53\<close> and \<open>2^53 + 1\<close>, and a table whose id counter is used up.\<close>

definition row_big :: bookmark where
  "row_big = \<lparr>b_id = 9007199254740992, b_name = str ''big'', b_href = str ''h'',
              b_finished = False, b_created_at = 10, b_updated_at = 10\<rparr>"

definition row_odd :: bookmark where
  "row_odd = \<lparr>b_id = 9007199254740993, b_name = str ''odd'', b_href = str ''h'',
              b_finished = False, b_created_at = 10, b_updated_at = 10\<rparr>"

definition db_big :: database where
  "db_big = \<lparr>bookmark_tbl = [row_big], tag_tbl = [], bookmark_tag_tbl = [],
              bookmark_seq = 9007199254740992, foreign_keys = True\<rparr>"

definition db_big_odd :: database where
  "db_big_odd = \<lparr>bookmark_tbl = [row_big, row_odd], tag_tbl = [], bookmark_tag_tbl = [],
                  bookmark_seq = 9007199254740993, foreign_keys = True\<rparr>"

definition db_full :: database where
  "db_full = \<lparr>bookmark_tbl = [], tag_tbl = [], bookmark_tag_tbl = [],
               bookmark_seq = 9223372036854775807, foreign_keys = True\<rparr>"

definition req_as :: "ustring option \<Rightarrow> route \<Rightarrow> request" where
  "req_as b r = \<lparr>bearer = b, target = Bookmarks r\<rparr>"

definition post_body :: body where
  "post_body = \<lparr>body_name = str ''n'', body_href = str ''h''\<rparr>"

definition tags_fail_2 :: faults where
  "tags_fail_2 =
     \<lparr>select_fault = None, tags_fault = (\<lambda>i. if i = 2 then Some StorageError else None)\<rparr>"

definition body_n :: "ustring \<Rightarrow> body" where
  "body_n h = \<lparr>body_name = str ''n'', body_href = h\<rparr>"

definition tok :: "ustring option" where
  "tok = Some (str ''secret'')"

definition post_twice :: "ustring \<Rightarrow> ustring \<Rightarrow> database" where
  "post_twice h h' =
     snd (app_part tok 2 (req_as tok (PostBookmarks (Some (body_n h'))))
       (snd (app_part tok 1 (req_as tok (PostBookmarks (Some (body_n h)))) empty_db)))"

section \<open>Facts about the statements\<close>

lemma str_nonempty: "str (c # cs) \<noteq> []"
  by (simp add: str_def)

lemma tok_some: "tok \<noteq> None" "tok \<noteq> Some []"
  by (simp_all add: tok_def str_def)

lemma index_pass_part_pass:
  "beforeHandle_index token b = None \<Longrightarrow> beforeHandle_part token b = None"
  by (auto simp add: beforeHandle_index_def beforeHandle_part_def split: if_splits)

lemma beforeHandle_part_reject:
  "b = None \<or> b \<noteq> token \<Longrightarrow> beforeHandle_part token b = Some unauthorized"
  by (simp add: beforeHandle_part_def)

lemma beforeHandle_index_reject:
  "b = None \<or> b \<noteq> token \<Longrightarrow> beforeHandle_index token b = Some unauthorized"
  by (auto simp add: beforeHandle_index_def)

lemma tok_passes:
  "beforeHandle_index tok (bearer (req_as tok r)) = None"
  "beforeHandle_part tok (bearer (req_as tok r)) = None"
  by (simp_all add: beforeHandle_index_def beforeHandle_part_def req_as_def tok_def str_def)

lemma target_req_as: "target (req_as b r) = Bookmarks r"
  by (simp add: req_as_def)

lemma routes_part_well_formed:
  "routes_part r = Some None \<longleftrightarrow> \<not> well_formed r"
  "routes_part r \<noteq> None"
  by (cases r; auto split: option.splits)+

lemma routes_B_well_formed:
  "routes_B r = Some None \<longleftrightarrow> \<not> well_formed r"
  "routes_B r \<noteq> None"
  by (cases r; auto split: option.splits)+

lemma routes_cached_well_formed:
  "routes_cached r \<noteq> None \<Longrightarrow> routes_cached r = Some None \<longleftrightarrow> \<not> well_formed r"
  by (cases r; auto split: option.splits)

lemma storage_updateBookmarks: "storage (updateBookmarks g st) = storage st"
  by (simp add: updateBookmarks_def Let_def)

lemma update_bookmark_tables:
  "tag_tbl (update_bookmark sc cond now db) = tag_tbl db"
  "bookmark_tag_tbl (update_bookmark sc cond now db) = bookmark_tag_tbl db"
  "bookmark_seq (update_bookmark sc cond now db) = bookmark_seq db"
  "foreign_keys (update_bookmark sc cond now db) = foreign_keys db"
  "length (bookmark_tbl (update_bookmark sc cond now db)) = length (bookmark_tbl db)"
  by (simp_all add: update_bookmark_def)

lemma update_bookmark_nth:
  "k < length (bookmark_tbl db) \<Longrightarrow>
   bookmark_tbl (update_bookmark sc cond now db) ! k =
     (let r = bookmark_tbl db ! k
      in if cond r then (sc r)\<lparr>b_updated_at := updatedAt_onUpdate now\<rparr> else r)"
  by (simp add: update_bookmark_def Let_def)

lemma filter_none: "\<forall>r\<in>set xs. \<not> P r \<Longrightarrow> filter (\<lambda>r. \<not> P r) xs = xs"
  by (induction xs) auto

lemma delete_bookmark_missing:
  assumes "\<forall>r\<in>set (bookmark_tbl db). \<not> cond r"
  shows "delete_bookmark cond db = Inr db"
proof -
  have "\<not> list_ex (\<lambda>r. cond r \<and> referenced db r) (bookmark_tbl db)"
    using assms by (simp add: list_ex_iff)
  moreover have "filter (\<lambda>r. \<not> cond r) (bookmark_tbl db) = bookmark_tbl db"
    using assms by (rule filter_none)
  ultimately show ?thesis by (simp add: delete_bookmark_def)
qed

subsection \<open>Numbers\<close>

lemma bits_0: "bits 0 = 0"
  by (simp add: bits.simps [of 0])

lemma bits_bound: "m < 2 ^ k \<Longrightarrow> bits m \<le> k"
proof (induction k arbitrary: m)
  case 0
  then show ?case by (simp add: bits_0)
next
  case (Suc k)
  have "m div 2 < 2 ^ k" using Suc.prems by simp
  then have "bits (m div 2) \<le> k" by (rule Suc.IH)
  then show ?case by (simp add: bits.simps [of m])
qed

lemma to_double_small:
  assumes "\<bar>n\<bar> < 9007199254740992"
  shows "to_double n = Some n"
proof -
  have m: "nat \<bar>n\<bar> < 2 ^ 53" using assms by simp
  then have b: "bits (nat \<bar>n\<bar>) \<le> 53" by (rule bits_bound)
  then have e: "bits (nat \<bar>n\<bar>) - 53 = 0" by simp
  have b2: "bits (nat \<bar>n\<bar>) \<le> 1024" using b by simp
  have s: "sgn n * \<bar>n\<bar> = n" by (simp add: sgn_mult_abs)
  show ?thesis
    using b2 s by (simp add: to_double_def e Let_def)
qed

lemma bits_limit: "bits 9007199254740992 = 54" "bits 9007199254740993 = 54"
  by (simp_all add: bits.simps)

lemma to_double_limit:
  "to_double 9007199254740992 = Some 9007199254740992"
  "to_double (- 9007199254740992) = Some (- 9007199254740992)"
  by (simp_all add: to_double_def bits_limit Let_def)

lemma to_double_exact: "\<bar>n\<bar> \<le> exact_limit \<Longrightarrow> to_double n = Some n"
proof -
  assume "\<bar>n\<bar> \<le> exact_limit"
  then consider "\<bar>n\<bar> < 9007199254740992" | "n = 9007199254740992" | "n = - 9007199254740992"
    unfolding exact_limit_def by linarith
  then show ?thesis
    using to_double_small to_double_limit by cases simp_all
qed

lemma to_double_above: "to_double 9007199254740993 = Some 9007199254740992"
  by (simp add: to_double_def bits_limit Let_def)

lemma numeric_exact: "\<bar>i\<bar> \<le> exact_limit \<Longrightarrow> numeric (Whole i) = Some (Some i)"
  by (simp add: numeric_def to_double_exact)

section \<open>The authentication guard\<close>

lemma app_part_check:
  assumes "target req = Bookmarks r" and "\<not> well_formed r"
  shows "app_part token now req db = (invalid, db)"
  using assms routes_part_well_formed(1) [of r] by (simp add: app_part_def)

lemma app_B_check:
  assumes "target req = Bookmarks r" and "\<not> well_formed r"
  shows "app_B token now req db = (invalid, db)"
  using assms routes_B_well_formed(1) [of r] by (simp add: app_B_def)

lemma app_part_guard:
  assumes "target req = Bookmarks r" and "well_formed r"
    and "bearer req = None \<or> bearer req \<noteq> token"
  shows "app_part token now req db = (unauthorized, db)"
proof -
  obtain h where "routes_part r = Some (Some h)"
    using routes_part_well_formed [of r] assms(2) by (cases "routes_part r") auto
  then show ?thesis
    using assms(1) beforeHandle_part_reject [OF assms(3)] by (simp add: app_part_def)
qed

lemma app_B_guard:
  assumes "target req = Bookmarks r" and "well_formed r"
    and "bearer req = None \<or> bearer req \<noteq> token"
  shows "app_B token now req db = (unauthorized, db)"
proof -
  obtain h where "routes_B r = Some (Some h)"
    using routes_B_well_formed [of r] assms(2) by (cases "routes_B r") auto
  then show ?thesis
    using assms(1) beforeHandle_index_reject [OF assms(3)] by (simp add: app_B_def)
qed

lemma app_cached_guard:
  assumes "target req = Bookmarks r"
    and "bearer req = None \<or> bearer req \<noteq> token"
  shows "app_cached token now req st =
           (if routes_cached r = None then not_found
            else if well_formed r then unauthorized else invalid, st)"
proof (cases "routes_cached r")
  case None
  then show ?thesis using assms(1) by (simp add: app_cached_def)
next
  case (Some v)
  then have w: "v = None \<longleftrightarrow> \<not> well_formed r"
    using routes_cached_well_formed [of r] by simp
  show ?thesis
  proof (cases v)
    case None
    then show ?thesis using Some w assms(1) by (simp add: app_cached_def)
  next
    case (Some h)
    then show ?thesis
      using \<open>routes_cached r = Some v\<close> w assms(1) beforeHandle_index_reject [OF assms(2)]
      by (simp add: app_cached_def)
  qed
qed

text \<open>
  Claim C2, as stated, fails. The framework checks a request against the schema of its
  route before the guard runs: a \<^verbatim>\<open>POST /bookmarks\<close> without credential whose body does
  not meet the schema is answered with status 422 and no \<^verbatim>\<open>WWW-Authenticate\<close> header,
  not with the 400 of the guard.
\<close>

theorem unauthenticated_malformed_counterexample:
  "bearer (req_as None (PostBookmarks None)) = None
   \<and> app_part tok 20 (req_as None (PostBookmarks None)) db12 = (invalid, db12)
   \<and> app_B tok 20 (req_as None (PostBookmarks None)) db12 = (invalid, db12)
   \<and> app_cached tok 20 (req_as None (PostBookmarks None)) state12 = (invalid, state12)
   \<and> status invalid = 422 \<and> headers invalid = []"
  by (simp add: req_as_def app_part_def app_B_def app_cached_def invalid_def)

text \<open>
  Claim C2, amended. For a request to a route of the \<^verbatim>\<open>/bookmarks\<close> group whose bearer
  credential is absent or differs from the configured token: when the request meets
  the schema of its route, the answer is status 400 with a \<^verbatim>\<open>WWW-Authenticate\<close> header
  and the body \<^verbatim>\<open>Unauthorized\<close>; when it does not, the answer is the status 422 of the
  schema check, without that header. In both cases, and in each of the three versions,
  the handler does not run: the answer is the same for every database, and the
  database (in the cached version the whole process state) is returned as it was. In
  the cached version \<^verbatim>\<open>PUT /bookmarks\<close> is not routed and is answered with 404.
\<close>

theorem unauthenticated_rejected:
  assumes tgt: "target req = Bookmarks r"
    and cred: "bearer req = None \<or> bearer req \<noteq> token"
  shows "app_part token now req db = (if well_formed r then unauthorized else invalid, db)
       \<and> app_B token now req db = (if well_formed r then unauthorized else invalid, db)
       \<and> app_cached token now req st =
           (if routes_cached r = None then not_found
            else if well_formed r then unauthorized else invalid, st)
       \<and> status unauthorized = 400
       \<and> map fst (headers unauthorized) = [''WWW-Authenticate'']
       \<and> payload unauthorized = Text ''Unauthorized''
       \<and> status invalid = 422 \<and> headers invalid = []"
proof -
  have p: "app_part token now req db = (if well_formed r then unauthorized else invalid, db)"
    using app_part_guard [OF tgt _ cred] app_part_check [OF tgt] by simp
  have b: "app_B token now req db = (if well_formed r then unauthorized else invalid, db)"
    using app_B_guard [OF tgt _ cred] app_B_check [OF tgt] by simp
  have c: "app_cached token now req st =
           (if routes_cached r = None then not_found
            else if well_formed r then unauthorized else invalid, st)"
    using tgt cred by (rule app_cached_guard)
  show ?thesis using p b c by (simp add: unauthorized_def invalid_def)
qed

theorem unauthenticated_rejected_witness:
  "app_part tok 20 (req_as (Some (str ''guess'')) (DeleteBookmark (Whole 1))) db12
     = (unauthorized, db12)
   \<and> app_B tok 20 (req_as (Some (str ''guess'')) (DeleteBookmark NotNumeric)) db12
     = (invalid, db12)
   \<and> app_cached tok 20 (req_as None (PostBookmarks (Some post_body))) state12
     = (unauthorized, state12)"
proof -
  have t: "\<And>b r. target (req_as b r) = Bookmarks r" by (simp add: req_as_def)
  have c1: "bearer (req_as (Some (str ''guess'')) (DeleteBookmark (Whole 1))) = None
          \<or> bearer (req_as (Some (str ''guess'')) (DeleteBookmark (Whole 1))) \<noteq> tok"
    by (simp add: req_as_def tok_def str_def)
  have c2: "bearer (req_as (Some (str ''guess'')) (DeleteBookmark NotNumeric)) = None
          \<or> bearer (req_as (Some (str ''guess'')) (DeleteBookmark NotNumeric)) \<noteq> tok"
    by (simp add: req_as_def tok_def str_def)
  have c3: "bearer (req_as None (PostBookmarks (Some post_body))) = None
          \<or> bearer (req_as None (PostBookmarks (Some post_body))) \<noteq> tok"
    by (simp add: req_as_def)
  have w1: "well_formed (DeleteBookmark (Whole 1))"
    by (simp add: numeric_def)
  have w2: "\<not> well_formed (DeleteBookmark NotNumeric)"
    by (simp add: numeric_def)
  show ?thesis
    using unauthenticated_rejected [OF t c1, of 20 db12 state12]
      unauthenticated_rejected [OF t c2, of 20 db12 state12]
      unauthenticated_rejected [OF t c3, of 20 db12 state12] w1 w2
    by simp
qed

section \<open>Toggling \<open>finished\<close>\<close>

lemma app_check_request:
  assumes tgt: "target req = Bookmarks (PutBookmarkCheck s (Some f))"
    and dec: "numeric s = Some d"
    and auth: "beforeHandle_index token (bearer req) = None"
  shows "app_part token now req db
           = (ok NoBody, update_bookmark (set_finished f) (id_eq d) now db)"
    and "app_B token now req db
           = (ok NoBody, update_bookmark (set_finished f) (id_eq d) now db)"
    and "app_cached token now req (st\<lparr>storage := db\<rparr>)
           = (ok NoBody,
              updateBookmarks True
                (st\<lparr>storage := update_bookmark (set_finished f) (id_eq d) now db\<rparr>))"
  using tgt dec auth index_pass_part_pass [OF auth]
  by (simp_all add: app_part_def app_B_def app_cached_def respond_def check_handler_def
      then_update_def)

text \<open>
  Claim C3, as stated, fails. A toggle of row 1 at the clock reading of its last update
  leaves \<open>updatedAt\<close> at that reading, not at a later one. And the id in the path is
  decoded to a double: the toggle of the existing id \<open>2^53 + 1\<close> changes the row with
  id \<open>2^53\<close> and leaves the row with id \<open>2^53 + 1\<close> as it was.
\<close>

theorem toggle_not_later_counterexample:
  "bookmark_tbl db12 = [row1, row2] \<and> b_id row1 = 1 \<and> b_updated_at row1 = 10
   \<and> app_part tok 10 (req_as tok (PutBookmarkCheck (Whole 1) (Some True))) db12
       = (ok NoBody,
          db12\<lparr>bookmark_tbl := [row1\<lparr>b_finished := True, b_updated_at := 10\<rparr>, row2]\<rparr>)
   \<and> bookmark_tbl db_big_odd = [row_big, row_odd] \<and> b_id row_odd = 9007199254740993
   \<and> app_part tok 20 (req_as tok (PutBookmarkCheck (Whole 9007199254740993) (Some True)))
         db_big_odd
       = (ok NoBody,
          db_big_odd\<lparr>bookmark_tbl := [row_big\<lparr>b_finished := True, b_updated_at := 20\<rparr>,
                                        row_odd]\<rparr>)"
proof -
  have n1: "numeric (Whole 1) = Some (Some 1)"
    by (simp add: numeric_exact exact_limit_def)
  have n2: "numeric (Whole 9007199254740993) = Some (Some 9007199254740992)"
    by (simp add: numeric_def to_double_above)
  have a: "app_part tok 10 (req_as tok (PutBookmarkCheck (Whole 1) (Some True))) db12
       = (ok NoBody, update_bookmark (set_finished True) (id_eq (Some 1)) 10 db12)"
    using target_req_as n1 tok_passes(1) by (rule app_check_request(1))
  have b: "app_part tok 20 (req_as tok (PutBookmarkCheck (Whole 9007199254740993) (Some True)))
         db_big_odd
       = (ok NoBody,
          update_bookmark (set_finished True) (id_eq (Some 9007199254740992)) 20 db_big_odd)"
    using target_req_as n2 tok_passes(1) by (rule app_check_request(1))
  have u1: "update_bookmark (set_finished True) (id_eq (Some 1)) 10 db12
      = db12\<lparr>bookmark_tbl := [row1\<lparr>b_finished := True, b_updated_at := 10\<rparr>, row2]\<rparr>"
    by (simp add: update_bookmark_def id_eq_def set_finished_def updatedAt_onUpdate_def db12_def
        row1_def row2_def)
  have u2: "update_bookmark (set_finished True) (id_eq (Some 9007199254740992)) 20 db_big_odd
      = db_big_odd\<lparr>bookmark_tbl := [row_big\<lparr>b_finished := True, b_updated_at := 20\<rparr>,
                                        row_odd]\<rparr>"
    by (simp add: update_bookmark_def id_eq_def set_finished_def updatedAt_onUpdate_def
        db_big_odd_def row_big_def row_odd_def)
  show ?thesis
    using a b u1 u2 by (simp add: db12_def db_big_odd_def row1_def row_odd_def)
qed

text \<open>
  Claim C3, amended. For a bookmark id \<open>i\<close> of magnitude at most \<open>2^53\<close> and a boolean
  \<open>f\<close>, an authenticated \<^verbatim>\<open>PUT /bookmarks/:id/check/:finished\<close> answers with an empty
  success and changes the bookmark table row by row: a row with id \<open>i\<close> gets
  \<open>finished = f\<close> and \<open>updatedAt\<close> equal to the clock reading of the request, which is
  later than the old value exactly when the clock has moved past it; its id, name, href
  and createdAt stay. Every other row, and the tag and association tables, are
  unchanged. The three versions of the server leave the same database.
\<close>

theorem toggle_finished_frame:
  assumes tgt: "target req = Bookmarks (PutBookmarkCheck (Whole i) (Some f))"
    and auth: "beforeHandle_index token (bearer req) = None"
    and exact: "\<bar>i\<bar> \<le> exact_limit"
  shows "\<exists>db'. app_part token now req db = (ok NoBody, db')
           \<and> app_B token now req db = (ok NoBody, db')
           \<and> fst (app_cached token now req (st\<lparr>storage := db\<rparr>)) = ok NoBody
           \<and> storage (snd (app_cached token now req (st\<lparr>storage := db\<rparr>))) = db'
           \<and> length (bookmark_tbl db') = length (bookmark_tbl db)
           \<and> (\<forall>k<length (bookmark_tbl db).
                 let r = bookmark_tbl db ! k; r' = bookmark_tbl db' ! k
                 in if b_id r = i
                    then b_finished r' = f \<and> b_updated_at r' = now
                       \<and> (b_updated_at r < b_updated_at r' \<longleftrightarrow> b_updated_at r < now)
                       \<and> b_id r' = b_id r \<and> b_name r' = b_name r \<and> b_href r' = b_href r
                       \<and> b_created_at r' = b_created_at r
                    else r' = r)
           \<and> tag_tbl db' = tag_tbl db \<and> bookmark_tag_tbl db' = bookmark_tag_tbl db"
proof -
  define db' where "db' = update_bookmark (set_finished f) (id_eq (Some i)) now db"
  have dec: "numeric (Whole i) = Some (Some i)"
    using exact by (rule numeric_exact)
  note app = app_check_request [OF tgt dec auth, of now]
  have p: "app_part token now req db = (ok NoBody, db')"
    using app(1) by (simp add: db'_def)
  have b: "app_B token now req db = (ok NoBody, db')"
    using app(2) by (simp add: db'_def)
  have c: "app_cached token now req (st\<lparr>storage := db\<rparr>)
             = (ok NoBody, updateBookmarks True (st\<lparr>storage := db'\<rparr>))"
    using app(3) by (simp add: db'_def)
  have rows: "\<forall>k<length (bookmark_tbl db).
                 let r = bookmark_tbl db ! k; r' = bookmark_tbl db' ! k
                 in if b_id r = i
                    then b_finished r' = f \<and> b_updated_at r' = now
                       \<and> (b_updated_at r < b_updated_at r' \<longleftrightarrow> b_updated_at r < now)
                       \<and> b_id r' = b_id r \<and> b_name r' = b_name r \<and> b_href r' = b_href r
                       \<and> b_created_at r' = b_created_at r
                    else r' = r"
  proof (intro allI impI)
    fix k assume k: "k < length (bookmark_tbl db)"
    show "let r = bookmark_tbl db ! k; r' = bookmark_tbl db' ! k
          in if b_id r = i
             then b_finished r' = f \<and> b_updated_at r' = now
                \<and> (b_updated_at r < b_updated_at r' \<longleftrightarrow> b_updated_at r < now)
                \<and> b_id r' = b_id r \<and> b_name r' = b_name r \<and> b_href r' = b_href r
                \<and> b_created_at r' = b_created_at r
             else r' = r"
      by (auto simp add: db'_def update_bookmark_nth [OF k] Let_def set_finished_def
          updatedAt_onUpdate_def id_eq_def)
  qed
  show ?thesis
    using p b c rows
    by (intro exI [of _ db']) (simp add: storage_updateBookmarks db'_def update_bookmark_tables)
qed

theorem toggle_finished_frame_witness:
  "\<exists>db'. app_part tok 20 (req_as tok (PutBookmarkCheck (Whole 1) (Some True))) db12
            = (ok NoBody, db')
         \<and> b_finished (bookmark_tbl db' ! 0) = True
         \<and> b_updated_at (bookmark_tbl db' ! 0) = 20
         \<and> b_name (bookmark_tbl db' ! 0) = str ''docs''
         \<and> bookmark_tbl db' ! 1 = row2"
proof -
  let ?req = "req_as tok (PutBookmarkCheck (Whole 1) (Some True))"
  have exact: "\<bar>1::int\<bar> \<le> exact_limit" by (simp add: exact_limit_def)
  have tgt: "target ?req = Bookmarks (PutBookmarkCheck (Whole 1) (Some True))"
    by (rule target_req_as)
  from toggle_finished_frame [OF tgt tok_passes(1) exact, of 20 db12 state12]
  obtain db' where a: "app_part tok 20 ?req db12 = (ok NoBody, db')"
    and rows: "\<forall>k<length (bookmark_tbl db12).
                 let r = bookmark_tbl db12 ! k; r' = bookmark_tbl db' ! k
                 in if b_id r = 1
                    then b_finished r' = True \<and> b_updated_at r' = 20
                       \<and> (b_updated_at r < b_updated_at r' \<longleftrightarrow> b_updated_at r < 20)
                       \<and> b_id r' = b_id r \<and> b_name r' = b_name r \<and> b_href r' = b_href r
                       \<and> b_created_at r' = b_created_at r
                    else r' = r"
    by blast
  have r0: "b_finished (bookmark_tbl db' ! 0) = True
          \<and> b_updated_at (bookmark_tbl db' ! 0) = 20
          \<and> b_name (bookmark_tbl db' ! 0) = str ''docs''"
    using rows [rule_format, of 0] by (simp add: db12_def row1_def Let_def)
  have r1: "bookmark_tbl db' ! 1 = row2"
    using rows [rule_format, of 1] by (simp add: db12_def row1_def row2_def Let_def)
  show ?thesis using a r0 r1 by blast
qed

section \<open>Deleting an id that is not there\<close>

lemma app_delete_request:
  assumes tgt: "target req = Bookmarks (DeleteBookmark s)"
    and dec: "numeric s = Some d"
    and auth: "beforeHandle_index token (bearer req) = None"
  shows "app_part token now req db = respond (delete_handler d now db)"
    and "app_B token now req db = respond (delete_handler d now db)"
    and "app_cached token now req st = respond (then_update (delete_handler d) now st)"
  using tgt dec auth index_pass_part_pass [OF auth]
  by (simp_all add: app_part_def app_B_def app_cached_def)

text \<open>
  Claim C8, as stated, fails. The id in the path is decoded to a double: no row has id
  \<open>2^53 + 1\<close>, and \<^verbatim>\<open>DELETE /bookmarks/9007199254740993\<close> deletes the row with id
  \<open>2^53\<close>.
\<close>

theorem delete_rounded_id_counterexample:
  "bookmark_tbl db_big = [row_big] \<and> b_id row_big \<noteq> 9007199254740993
   \<and> app_part tok 20 (req_as tok (DeleteBookmark (Whole 9007199254740993))) db_big
       = (ok NoBody, db_big\<lparr>bookmark_tbl := []\<rparr>)"
proof -
  have n: "numeric (Whole 9007199254740993) = Some (Some 9007199254740992)"
    by (simp add: numeric_def to_double_above)
  have a: "app_part tok 20 (req_as tok (DeleteBookmark (Whole 9007199254740993))) db_big
       = respond (delete_handler (Some 9007199254740992) 20 db_big)"
    using target_req_as n tok_passes(1) by (rule app_delete_request(1))
  have d: "delete_handler (Some 9007199254740992) 20 db_big
       = (Inr NoBody, db_big\<lparr>bookmark_tbl := []\<rparr>)"
    by (simp add: delete_handler_def delete_bookmark_def id_eq_def referenced_def db_big_def
        row_big_def)
  show ?thesis using a d by (simp add: respond_def db_big_def row_big_def)
qed

text \<open>
  Claim C8, amended. When the id in the path is a number and no row of the bookmark
  table has the decoded number as its id, an authenticated \<^verbatim>\<open>DELETE /bookmarks/:id\<close>
  answers with an empty success (status 200, no error) and the database is the one
  before the request: every row of every table is unchanged. In the cached version the
  database is unchanged as well (the handler goes on to trigger a cache refresh). An
  integer of magnitude at most \<open>2^53\<close> is decoded to itself, so this holds for every
  such id that is not in the table.
\<close>

theorem delete_missing_id_noop:
  assumes dec: "numeric s = Some d"
    and missing: "\<forall>r\<in>set (bookmark_tbl db). Some (b_id r) \<noteq> d"
    and missing_st: "\<forall>r\<in>set (bookmark_tbl (storage st)). Some (b_id r) \<noteq> d"
    and tgt: "target req = Bookmarks (DeleteBookmark s)"
    and auth: "beforeHandle_index token (bearer req) = None"
  shows "app_part token now req db = (ok NoBody, db)
       \<and> app_B token now req db = (ok NoBody, db)
       \<and> fst (app_cached token now req st) = ok NoBody
       \<and> storage (snd (app_cached token now req st)) = storage st
       \<and> (\<forall>i. \<bar>i\<bar> \<le> exact_limit \<longrightarrow> numeric (Whole i) = Some (Some i))"
proof -
  have d: "delete_bookmark (id_eq d) db = Inr db"
    using missing by (intro delete_bookmark_missing) (auto simp add: id_eq_def)
  have ds: "delete_bookmark (id_eq d) (storage st) = Inr (storage st)"
    using missing_st by (intro delete_bookmark_missing) (auto simp add: id_eq_def)
  note app = app_delete_request [OF tgt dec auth, of now]
  have p: "app_part token now req db = (ok NoBody, db)"
    using app(1) d by (simp add: respond_def delete_handler_def)
  have b: "app_B token now req db = (ok NoBody, db)"
    using app(2) d by (simp add: respond_def delete_handler_def)
  have c: "app_cached token now req st = (ok NoBody, updateBookmarks True st)"
    using app(3) ds by (simp add: respond_def delete_handler_def then_update_def)
  show ?thesis using p b c by (simp add: storage_updateBookmarks numeric_exact)
qed

theorem delete_missing_id_noop_witness:
  "app_part tok 20 (req_as tok (DeleteBookmark (Whole 7))) db12 = (ok NoBody, db12)
   \<and> storage (snd (app_cached tok 20 (req_as tok (DeleteBookmark (Whole 7))) state12)) = db12
   \<and> app_B tok 20 (req_as tok (DeleteBookmark Fractional)) db12 = (ok NoBody, db12)"
proof -
  have n7: "numeric (Whole 7) = Some (Some 7)"
    by (simp add: numeric_exact exact_limit_def)
  have nf: "numeric Fractional = Some None"
    by (simp add: numeric_def)
  have m7: "\<forall>r\<in>set (bookmark_tbl db12). Some (b_id r) \<noteq> Some 7"
    "\<forall>r\<in>set (bookmark_tbl (storage state12)). Some (b_id r) \<noteq> Some 7"
    by (simp_all add: db12_def state12_def row1_def row2_def)
  have mf: "\<forall>r\<in>set (bookmark_tbl db12). Some (b_id r) \<noteq> None"
    "\<forall>r\<in>set (bookmark_tbl (storage state12)). Some (b_id r) \<noteq> None"
    by simp_all
  show ?thesis
    using delete_missing_id_noop [OF n7 m7 target_req_as tok_passes(1), of 20]
      delete_missing_id_noop [OF nf mf target_req_as tok_passes(1), of 20]
    by (simp add: state12_def)
qed

section \<open>The in-memory cache\<close>

lemma items_updateBookmarks:
  "stateBookmarks_items (updateBookmarks g st) = stateBookmarks_items st"
  by (simp add: updateBookmarks_def Let_def)

lemma flag_updateBookmarks:
  "isUpdatingBookmarks (updateBookmarks g st) = isUpdatingBookmarks st"
  by (simp add: updateBookmarks_def Let_def)

lemma then_update_keeps:
  "stateBookmarks_items (snd (then_update h now st)) = stateBookmarks_items st"
  "isUpdatingBookmarks (snd (then_update h now st)) = isUpdatingBookmarks st"
  by (simp_all add: then_update_def items_updateBookmarks flag_updateBookmarks
      split: prod.splits sum.splits)

lemma handler_cached_keeps:
  assumes "routes_cached r = Some (Some h)"
  shows "stateBookmarks_items (snd (h now st)) = stateBookmarks_items st"
    and "isUpdatingBookmarks (snd (h now st)) = isUpdatingBookmarks st"
  using assms
  by (cases r; auto simp add: then_update_keeps get_handler_cached_def split: option.splits)+

lemma snd_respond: "snd (respond x) = snd x"
  by (cases x) (simp add: respond_def split: sum.splits)

lemma items_app_cached:
  "stateBookmarks_items (snd (app_cached token now req st)) = stateBookmarks_items st"
  by (simp add: app_cached_def snd_respond handler_cached_keeps
      split: target.splits option.splits)

lemma flag_app_cached:
  "isUpdatingBookmarks (snd (app_cached token now req st)) = isUpdatingBookmarks st"
  by (simp add: app_cached_def snd_respond handler_cached_keeps
      split: target.splits option.splits)

lemma flag_getBookmarks:
  "isUpdatingBookmarks (snd (getBookmarks flt g st)) = isUpdatingBookmarks st"
  by (simp add: getBookmarks_def split: sum.splits)

lemma reachable_flag_clear: "reachable st \<Longrightarrow> \<not> isUpdatingBookmarks st"
proof (induction rule: reachable.induct)
  case (start flt db)
  then show ?case
    by (simp add: startup_cached_def getBookmarks_def split: sum.splits)
next
  case (request st token now req)
  then show ?case by (simp add: flag_app_cached)
next
  case (immediate st flt)
  then show ?case by (simp add: run_immediate_def flag_getBookmarks)
qed

lemma updateBookmarks_schedules:
  "\<not> isUpdatingBookmarks st \<Longrightarrow> immediates (updateBookmarks True st) = Suc (immediates st)"
  by (simp add: updateBookmarks_def Let_def)

lemma bookmarksWithTags_tagged:
  "bookmarksWithTags flt db rows = Inr xs \<Longrightarrow> \<forall>x\<in>set xs. \<exists>ts. i_tags x = Some ts"
  by (induction rows arbitrary: xs) (auto split: sum.splits)

lemma getBookmarks_tagged:
  "tagged (fst (getBookmarks flt g st))"
  "tagged (stateBookmarks_items st) \<Longrightarrow> tagged (stateBookmarks_items (snd (getBookmarks flt g st)))"
  using bookmarksWithTags_tagged
  by (auto simp add: getBookmarks_def tagged_def split: sum.splits)

lemma reachable_tagged: "reachable st \<Longrightarrow> tagged (stateBookmarks_items st)"
proof (induction rule: reachable.induct)
  case (start flt db)
  have "tagged (fst (getBookmarks flt False
             \<lparr>storage = db, stateBookmarks_items = [], isUpdatingBookmarks = False,
              immediates = 0, console = []\<rparr>))"
    by (rule getBookmarks_tagged)
  then show ?case
    by (auto simp add: startup_cached_def split: prod.splits)
next
  case (request st token now req)
  then show ?case by (simp add: items_app_cached)
next
  case (immediate st flt)
  have "tagged (stateBookmarks_items (st\<lparr>immediates := immediates st - 1\<rparr>))"
    using immediate.IH by simp
  then have "tagged (stateBookmarks_items (snd (getBookmarks flt True (st\<lparr>immediates := immediates st - 1\<rparr>))))"
    by (rule getBookmarks_tagged)
  then show ?case using immediate.IH by (simp add: run_immediate_def)
qed

lemma state12_start: "startup_cached no_faults db12 = state12"
  by (simp add: startup_cached_def getBookmarks_def select_bookmarks_def no_faults_def db12_def
      select_tags_def getBookmarkTags_def row1_def row2_def tag1_def state12_def)

lemma reachable_state12: "reachable state12"
  using reachable.start [of no_faults db12] by (simp add: state12_start)

lemma getBookmarks_failure:
  assumes "select_fault flt = Some e
         \<or> (select_fault flt = None
            \<and> bookmarksWithTags flt (storage st) (bookmark_tbl (storage st)) = Inl e)"
  shows "getBookmarks flt g st = ([], st\<lparr>console := console st @ [e]\<rparr>)"
  using assms by (auto simp add: getBookmarks_def select_bookmarks_def)

lemma app_cached_get:
  assumes "target req = Bookmarks (GetBookmarks q)"
    and "beforeHandle_index token (bearer req) = None"
  shows "app_cached token now req st = (ok (Items (get_bookmarks_cached q st)), st)"
  using assms by (simp add: app_cached_def respond_def get_handler_cached_def)


text \<open>With the flag set, a trigger returns at once and queues nothing.\<close>

lemma updateBookmarks_flag_set:
  "isUpdatingBookmarks st \<Longrightarrow> updateBookmarks g st = st"
  by (simp add: updateBookmarks_def)

text \<open>
  In every reachable state the flag \<^verbatim>\<open>isUpdatingBookmarks\<close> is false:
  \<^verbatim>\<open>updateBookmarks\<close> clears it in its \<^verbatim>\<open>finally\<close> block before it returns, while the
  callback it has queued has not run yet. So the early return on the flag is never
  taken, and every trigger queues one more callback.
\<close>

lemma updateBookmarks_always_queues:
  "reachable st \<Longrightarrow> immediates (updateBookmarks True st) = Suc (immediates st)"
  using reachable_flag_clear updateBookmarks_schedules by blast

text \<open>
  Claim C5 says that a refresh trigger arriving while an earlier refresh is still
  pending is dropped and queues nothing. The code at that input: after start on an empty
  database no callback is queued; an authenticated \<^verbatim>\<open>POST /bookmarks\<close> queues one; an
  authenticated \<^verbatim>\<open>DELETE /bookmarks/1\<close> handled before the event loop runs that callback
  queues a second one, so two refreshes are pending.
\<close>

theorem second_trigger_not_dropped:
  "immediates (startup_cached no_faults empty_db) = 0
   \<and> immediates (snd (app_cached (Some (str ''secret'')) 1
        (req_as (Some (str ''secret'')) (PostBookmarks (Some post_body)))
        (startup_cached no_faults empty_db))) = 1
   \<and> immediates (snd (app_cached (Some (str ''secret'')) 2
        (req_as (Some (str ''secret'')) (DeleteBookmark (Whole 1)))
        (snd (app_cached (Some (str ''secret'')) 1
        (req_as (Some (str ''secret'')) (PostBookmarks (Some post_body)))
        (startup_cached no_faults empty_db))))) = 2"
proof -
  have n1: "numeric (Whole 1) = Some (Some 1)"
    by (simp add: numeric_exact exact_limit_def)
  show ?thesis
    by (simp add: startup_cached_def getBookmarks_def select_bookmarks_def no_faults_def
        empty_db_def app_cached_def req_as_def beforeHandle_index_def respond_def
        updateBookmarks_def then_update_def post_handler_def delete_handler_def
        insert_bookmark_def last_id_def max_rowid_def new_row_def delete_bookmark_def
        referenced_def id_eq_def n1 str_def Let_def)
qed

text \<open>
  Claim C6. When a query of a refresh run throws (the select on the bookmark table, or
  the tag query of one of the rows), \<^verbatim>\<open>getBookmarks\<close> returns normally with the empty
  array, the error is appended to the console, and nothing else of the process state
  changes: \<^verbatim>\<open>stateBookmarks.items\<close> is what it was, also after the event loop has run
  the failing callback, and a request handled afterwards does not change it either.
\<close>

theorem refresh_failure_keeps_cache:
  assumes fails: "select_fault flt = Some e
         \<or> (select_fault flt = None
            \<and> bookmarksWithTags flt (storage st) (bookmark_tbl (storage st)) = Inl e)"
  shows "getBookmarks flt True st = ([], st\<lparr>console := console st @ [e]\<rparr>)
       \<and> stateBookmarks_items (snd (getBookmarks flt True st)) = stateBookmarks_items st
       \<and> stateBookmarks_items (run_immediate flt st) = stateBookmarks_items st
       \<and> stateBookmarks_items (snd (app_cached token now req (run_immediate flt st)))
           = stateBookmarks_items st"
proof -
  have a: "getBookmarks flt True st = ([], st\<lparr>console := console st @ [e]\<rparr>)"
    using fails by (rule getBookmarks_failure)
  have "select_fault flt = Some e
         \<or> (select_fault flt = None
            \<and> bookmarksWithTags flt (storage (st\<lparr>immediates := immediates st - 1\<rparr>))
                 (bookmark_tbl (storage (st\<lparr>immediates := immediates st - 1\<rparr>))) = Inl e)"
    using fails by simp
  then have "getBookmarks flt True (st\<lparr>immediates := immediates st - 1\<rparr>)
      = ([], st\<lparr>immediates := immediates st - 1\<rparr>
               \<lparr>console := console (st\<lparr>immediates := immediates st - 1\<rparr>) @ [e]\<rparr>)"
    by (rule getBookmarks_failure)
  then have b: "stateBookmarks_items (run_immediate flt st) = stateBookmarks_items st"
    by (simp add: run_immediate_def)
  show ?thesis using a b by (simp add: items_app_cached)
qed

theorem refresh_failure_keeps_cache_witness:
  "getBookmarks tags_fail_2 True state12 = ([], state12\<lparr>console := [StorageError]\<rparr>)
   \<and> stateBookmarks_items (run_immediate tags_fail_2 (state12\<lparr>immediates := 1\<rparr>))
       = stateBookmarks_items state12"
proof -
  have f: "select_fault tags_fail_2 = Some StorageError
         \<or> (select_fault tags_fail_2 = None
            \<and> bookmarksWithTags tags_fail_2 (storage state12) (bookmark_tbl (storage state12))
                = Inl StorageError)"
    by (simp add: tags_fail_2_def state12_def db12_def select_tags_def row1_def row2_def)
  have f1: "select_fault tags_fail_2 = Some StorageError
         \<or> (select_fault tags_fail_2 = None
            \<and> bookmarksWithTags tags_fail_2 (storage (state12\<lparr>immediates := 1\<rparr>))
                 (bookmark_tbl (storage (state12\<lparr>immediates := 1\<rparr>)))
                = Inl StorageError)"
    using f by simp
  show ?thesis
    using refresh_failure_keeps_cache [OF f] refresh_failure_keeps_cache [OF f1]
    by (simp add: state12_def)
qed

lemma like_doc:
  "sql_like (wrap (str ''doc'')) (str ''docs'')"
  "\<not> sql_like (wrap (str ''doc'')) (str ''a b'')"
  by (simp_all add: sql_like_def cstring_def wrap_def str_def lower_def)

text \<open>
  Claim C9. In the cached version, in every reachable state, an authenticated
  \<^verbatim>\<open>GET /bookmarks\<close> with a non-empty \<open>q\<close> answers with the rows of a live select on
  the bookmark table, none with a \<^verbatim>\<open>tags\<close> property; without \<open>q\<close> (or with the empty
  \<open>q\<close>) it answers with the cached entries, each with a \<^verbatim>\<open>tags\<close> array. No element of
  the one answer is an element of the other.
\<close>

theorem cached_list_shapes_differ:
  assumes r: "reachable st" and ne: "s \<noteq> []"
    and auth: "beforeHandle_index token (bearer req) = None"
      "beforeHandle_index token (bearer req') = None"
    and tgt: "target req = Bookmarks (GetBookmarks (Some s))"
    and tgt': "target req' = Bookmarks (GetBookmarks q)" "q = None \<or> q = Some []"
  shows "\<exists>xs. app_cached token now req st = (ok (Items xs), st)
           \<and> xs = map plain (filter (\<lambda>r. sql_like (wrap s) (b_name r))
                                     (bookmark_tbl (storage st)))
           \<and> (\<forall>x\<in>set xs. i_tags x = None)
           \<and> app_cached token now req' st = (ok (Items (stateBookmarks_items st)), st)
           \<and> (\<forall>x\<in>set (stateBookmarks_items st). \<exists>ts. i_tags x = Some ts)
           \<and> set xs \<inter> set (stateBookmarks_items st) = {}"
proof -
  define xs where "xs = map plain (filter (\<lambda>r. sql_like (wrap s) (b_name r))
                                     (bookmark_tbl (storage st)))"
  have g: "get_bookmarks_cached (Some s) st = xs"
    using ne by (simp add: get_bookmarks_cached_def search_name_def xs_def)
  have a: "app_cached token now req st = (ok (Items xs), st)"
    using app_cached_get [OF tgt auth(1)] g by simp
  have b: "\<forall>x\<in>set xs. i_tags x = None"
    by (auto simp add: xs_def plain_def)
  have "get_bookmarks_cached q st = stateBookmarks_items st"
    using tgt'(2) by (auto simp add: get_bookmarks_cached_def)
  then have c: "app_cached token now req' st = (ok (Items (stateBookmarks_items st)), st)"
    using app_cached_get [OF tgt'(1) auth(2)] by simp
  have d: "\<forall>x\<in>set (stateBookmarks_items st). \<exists>ts. i_tags x = Some ts"
    using reachable_tagged [OF r] by (simp add: tagged_def)
  have e: "set xs \<inter> set (stateBookmarks_items st) = {}"
    using b d by fastforce
  show ?thesis using a b c d e xs_def by blast
qed

theorem cached_list_shapes_differ_witness:
  "reachable state12 \<and> str ''doc'' \<noteq> []
   \<and> app_cached tok 20 (req_as tok (GetBookmarks (Some (str ''doc'')))) state12
       = (ok (Items [\<lparr>i_row = row1, i_tags = None\<rparr>]), state12)
   \<and> app_cached tok 20 (req_as tok (GetBookmarks None)) state12
       = (ok (Items [\<lparr>i_row = row1, i_tags = Some [tag1]\<rparr>, \<lparr>i_row = row2, i_tags = Some []\<rparr>]),
          state12)"
proof -
  have ne: "str ''doc'' \<noteq> []" by (simp add: str_def)
  have m: "filter (\<lambda>r. sql_like (wrap (str ''doc'')) (b_name r)) (bookmark_tbl (storage state12))
             = [row1]"
    using like_doc by (simp add: state12_def db12_def row1_def row2_def)
  have tgt: "target (req_as tok (GetBookmarks (Some (str ''doc''))))
               = Bookmarks (GetBookmarks (Some (str ''doc'')))"
    by (rule target_req_as)
  have tgt': "target (req_as tok (GetBookmarks None)) = Bookmarks (GetBookmarks None)"
    by (rule target_req_as)
  have q: "(None :: ustring option) = None \<or> (None :: ustring option) = Some []" by simp
  from cached_list_shapes_differ [OF reachable_state12 ne tok_passes(1) tok_passes(1) tgt tgt' q,
      of 20]
  obtain xs where "app_cached tok 20 (req_as tok (GetBookmarks (Some (str ''doc'')))) state12
           = (ok (Items xs), state12)"
    and "xs = map plain (filter (\<lambda>r. sql_like (wrap (str ''doc'')) (b_name r))
                                     (bookmark_tbl (storage state12)))"
    and "app_cached tok 20 (req_as tok (GetBookmarks None)) state12
           = (ok (Items (stateBookmarks_items state12)), state12)"
    by blast
  then show ?thesis using reachable_state12 ne m by (simp add: plain_def state12_def)
qed

section \<open>Listing and searching\<close>


















section \<open>Creating and upserting\<close>

lemma get_by_name_None: "get_by_name n db = None \<longleftrightarrow> named n db = []"
  by (simp add: get_by_name_def named_def split: list.splits)


lemma insert_bookmark_full: "table_full db \<Longrightarrow> insert_bookmark b now db = Inl FullError"
  by (simp add: insert_bookmark_def table_full_def)

lemma insert_bookmark_room:
  "\<not> table_full db \<Longrightarrow>
   insert_bookmark b now db
     = Inr (db\<lparr>bookmark_tbl := bookmark_tbl db @ [new_row (last_id db + 1) b now],
               bookmark_seq := last_id db + 1\<rparr>)"
  by (simp add: insert_bookmark_def table_full_def Let_def)

lemma new_row_fields:
  "b_id (new_row i b now) = i" "b_name (new_row i b now) = body_name b"
  "b_href (new_row i b now) = body_href b" "\<not> b_finished (new_row i b now)"
  "b_created_at (new_row i b now) = now" "b_updated_at (new_row i b now) = now"
  by (simp_all add: new_row_def createdAt_default_def updatedAt_default_def)

lemma named_append:
  "named n (db\<lparr>bookmark_tbl := bookmark_tbl db @ [new_row i b now], bookmark_seq := j\<rparr>)
     = named n db @ (if body_name b = n then [new_row i b now] else [])"
  by (simp add: named_def new_row_def)

lemma filter_map_same_name:
  "filter (\<lambda>r. b_name r = n)
     (map (\<lambda>r. if b_name r = n then (set_body b r)\<lparr>b_updated_at := t\<rparr> else r) xs)
   = (if body_name b = n
      then map (\<lambda>r. (set_body b r)\<lparr>b_updated_at := t\<rparr>) (filter (\<lambda>r. b_name r = n) xs)
      else [])"
  by (induction xs) (auto simp add: set_body_def)

lemma named_update:
  "named (body_name b) (update_bookmark (set_body b) (\<lambda>r. b_name r = body_name b) now db)
     = map (\<lambda>r. (set_body b r)\<lparr>b_updated_at := updatedAt_onUpdate now\<rparr>) (named (body_name b) db)"
  by (simp add: named_def update_bookmark_def filter_map_same_name)

lemma upsert_part_absent:
  "named (body_name b) db = [] \<Longrightarrow>
   upsert_part b now db
     = (if table_full db then Inl FullError
        else Inr (True, db\<lparr>bookmark_tbl := bookmark_tbl db @ [new_row (last_id db + 1) b now],
                           bookmark_seq := last_id db + 1\<rparr>))"
  by (simp add: upsert_part_def get_by_name_None [symmetric] insert_bookmark_full
      insert_bookmark_room)

lemma upsert_part_present:
  "named (body_name b) db \<noteq> [] \<Longrightarrow>
   upsert_part b now db
     = Inr (False, update_bookmark (set_body b) (\<lambda>r. b_name r = body_name b) now db)"
  using get_by_name_None [of "body_name b" db]
  by (auto simp add: upsert_part_def split: option.splits)

lemma upsert_B_is_part:
  "upsert_B b now db = (case upsert_part b now db of Inl e \<Rightarrow> Inl e | Inr (c, db') \<Rightarrow> Inr db')"
  by (simp add: upsert_B_def upsert_part_def split: option.splits sum.splits)

lemma same_name_update:
  "b_name r = n \<Longrightarrow> r\<lparr>b_name := n, b_href := h, b_updated_at := t\<rparr> = r\<lparr>b_href := h, b_updated_at := t\<rparr>"
  by (cases r) simp

lemma update_by_name_rows:
  "\<forall>k<length (bookmark_tbl db).
     let r = bookmark_tbl db ! k;
         r' = bookmark_tbl (update_bookmark (set_body b) (\<lambda>r. b_name r = body_name b) now db) ! k
     in if b_name r = body_name b
        then r' = r\<lparr>b_href := body_href b, b_updated_at := now\<rparr>
        else r' = r"
proof (intro allI impI)
  fix k assume k: "k < length (bookmark_tbl db)"
  show "let r = bookmark_tbl db ! k;
         r' = bookmark_tbl (update_bookmark (set_body b) (\<lambda>r. b_name r = body_name b) now db) ! k
     in if b_name r = body_name b
        then r' = r\<lparr>b_href := body_href b, b_updated_at := now\<rparr>
        else r' = r"
    by (simp add: update_bookmark_nth [OF k] Let_def set_body_def updatedAt_onUpdate_def
        same_name_update)
qed

lemma named_after_upsert:
  assumes "length (named (body_name b) db) \<le> 1"
    and "named (body_name b) db \<noteq> [] \<or> \<not> table_full db"
  shows "\<exists>c db' r. upsert_part b now db = Inr (c, db')
           \<and> named (body_name b) db' = [r] \<and> b_href r = body_href b"
proof (cases "named (body_name b) db")
  case Nil
  then have "\<not> table_full db" using assms(2) by simp
  then show ?thesis
    using Nil by (auto simp add: upsert_part_absent named_append new_row_fields)
next
  case (Cons x xs)
  then have xs: "xs = []" using assms(1) by simp
  have "named (body_name b) db \<noteq> []" using Cons by simp
  then show ?thesis
    using Cons xs by (auto simp add: upsert_part_present named_update set_body_def)
qed




lemma post_twice_rows:
  "bookmark_tbl (post_twice h h') =
     [\<lparr>b_id = 1, b_name = str ''n'', b_href = h, b_finished = False, b_created_at = 1,
       b_updated_at = 1\<rparr>,
      \<lparr>b_id = 2, b_name = str ''n'', b_href = h', b_finished = False, b_created_at = 2,
       b_updated_at = 2\<rparr>]"
  by (simp add: post_twice_def app_part_def req_as_def tok_def beforeHandle_part_def respond_def
      post_handler_def insert_bookmark_def last_id_def max_rowid_def new_row_def body_n_def
      empty_db_def Let_def createdAt_default_def updatedAt_default_def)

lemma app_part_put:
  assumes "beforeHandle_part token (bearer req) = None"
    and "target req = Bookmarks (PutBookmarks (Some b))"
  shows "app_part token now req db = respond (put_handler_part b now db)"
  using assms by (simp add: app_part_def)

lemma app_B_put:
  assumes "beforeHandle_index token (bearer req) = None"
    and "target req = Bookmarks (PutBookmarks (Some b))"
  shows "app_B token now req db = respond (put_handler_B b now db)"
  using assms by (simp add: app_B_def)

lemma put_part_absent:
  assumes "named (body_name b) db = []"
  shows "respond (put_handler_part b now db)
           = (if table_full db then (failed FullError, db)
              else (ok (Created True),
                    db\<lparr>bookmark_tbl := bookmark_tbl db @ [new_row (last_id db + 1) b now],
                        bookmark_seq := last_id db + 1\<rparr>))"
  using assms by (simp add: put_handler_part_def upsert_part_absent respond_def)

lemma put_part_present:
  assumes "named (body_name b) db \<noteq> []"
  shows "respond (put_handler_part b now db)
           = (ok (Created False),
              update_bookmark (set_body b) (\<lambda>r. b_name r = body_name b) now db)"
  using assms by (simp add: put_handler_part_def upsert_part_present respond_def)

lemma put_B_is_part:
  "respond (put_handler_B b now db)
     = (if named (body_name b) db = [] \<and> table_full db then failed FullError else ok NoBody,
        snd (respond (put_handler_part b now db)))"
proof (cases "named (body_name b) db = []")
  case True
  then show ?thesis
    by (simp add: put_handler_B_def put_handler_part_def upsert_B_is_part upsert_part_absent
        respond_def)
next
  case False
  then show ?thesis
    by (simp add: put_handler_B_def put_handler_part_def upsert_B_is_part upsert_part_present
        respond_def)
qed

lemma upsert_part_present_named:
  assumes "named (body_name b) db \<noteq> []"
  shows "fst (respond (put_handler_part b now db)) = ok (Created False)"
    and "length (named (body_name b) (snd (respond (put_handler_part b now db))))
           = length (named (body_name b) db)"
  using assms by (simp_all add: put_part_present named_update)

text \<open>
  Claim C1, as stated, fails. Two \<^verbatim>\<open>POST /bookmarks\<close> with the same name leave two rows
  with that name; two upserts of that name with different hrefs then leave two rows with
  the name, not one (the second call does report \<open>created = False\<close>). And in the
  version of \<^verbatim>\<open>src/index.js\<close> that has the route, the handler returns nothing: the
  response has no body, for the first and for the second call.
\<close>

theorem upsert_duplicates_counterexample:
  "length (named (str ''n'')
      (snd (app_part tok 4 (req_as tok (PutBookmarks (Some (body_n (str ''h4'')))))
        (snd (app_part tok 3 (req_as tok (PutBookmarks (Some (body_n (str ''h3'')))))
               (post_twice (str ''h1'') (str ''h2'')))))))
     = 2
   \<and> fst (app_part tok 4 (req_as tok (PutBookmarks (Some (body_n (str ''h4'')))))
        (snd (app_part tok 3 (req_as tok (PutBookmarks (Some (body_n (str ''h3'')))))
               (post_twice (str ''h1'') (str ''h2'')))))
     = ok (Created False)
   \<and> fst (app_B tok 3 (req_as tok (PutBookmarks (Some (body_n (str ''h3''))))) empty_db)
     = ok NoBody
   \<and> fst (app_B tok 4 (req_as tok (PutBookmarks (Some (body_n (str ''h4'')))))
        (snd (app_B tok 3 (req_as tok (PutBookmarks (Some (body_n (str ''h3''))))) empty_db)))
     = ok NoBody"
proof -
  let ?db = "post_twice (str ''h1'') (str ''h2'')"
  let ?b3 = "body_n (str ''h3'')"
  let ?b4 = "body_n (str ''h4'')"
  let ?r3 = "req_as tok (PutBookmarks (Some ?b3))"
  let ?r4 = "req_as tok (PutBookmarks (Some ?b4))"
  let ?db3 = "snd (respond (put_handler_part ?b3 3 ?db))"
  let ?db4 = "snd (respond (put_handler_part ?b4 4 ?db3))"
  have nm: "body_name ?b3 = str ''n''" "body_name ?b4 = str ''n''"
    by (simp_all add: body_n_def)
  have n2: "length (named (str ''n'') ?db) = 2"
    by (simp add: named_def post_twice_rows)
  then have ne: "named (body_name ?b3) ?db \<noteq> []" using nm by auto
  have n3: "length (named (str ''n'') ?db3) = 2"
    using upsert_part_present_named(2) [OF ne, of 3] n2 nm by simp
  then have ne3: "named (body_name ?b4) ?db3 \<noteq> []" using nm by auto
  have n4: "length (named (str ''n'') ?db4) = 2"
    using upsert_part_present_named(2) [OF ne3, of 4] n3 nm by simp
  have c4: "fst (respond (put_handler_part ?b4 4 ?db3)) = ok (Created False)"
    using ne3 by (rule upsert_part_present_named(1))
  have p3: "app_part tok 3 ?r3 ?db = respond (put_handler_part ?b3 3 ?db)"
    using tok_passes(2) target_req_as by (rule app_part_put)
  have p4: "app_part tok 4 ?r4 ?db3 = respond (put_handler_part ?b4 4 ?db3)"
    using tok_passes(2) target_req_as by (rule app_part_put)
  have b: "fst (app_B tok 3 ?r3 empty_db) = ok NoBody"
    "fst (app_B tok 4 ?r4 (snd (app_B tok 3 ?r3 empty_db))) = ok NoBody"
    by (simp_all add: app_B_def req_as_def tok_def beforeHandle_index_def respond_def
        put_handler_B_def upsert_B_def get_by_name_def insert_bookmark_def last_id_def
        max_rowid_def empty_db_def new_row_def body_n_def str_def Let_def)
  show ?thesis using p3 p4 n4 c4 b by simp
qed

text \<open>
  Claim C1, amended. In the version with the upsert response, an authenticated
  \<^verbatim>\<open>PUT /bookmarks\<close> with a body \<open>b1\<close> that meets the schema: when no row has the
  name, inserts one row with the name and href of \<open>b1\<close> and reports \<open>created = True\<close>,
  unless the id counter of the table is used up, where the insert is refused, the answer
  is the error and the database stays as it was; when some row has the name, reports
  \<open>created = False\<close>, adds no row and gives every row with that name the href of \<open>b1\<close>
  and the time of the request as \<open>updatedAt\<close>, leaving the other rows as they were. The
  version of \<^verbatim>\<open>src/index.js\<close> with the route leaves the same database and answers
  without a body. When at most one row has the name beforehand and the first call is
  not refused, a second upsert of the same name with body \<open>b2\<close> reports
  \<open>created = False\<close> and leaves exactly one row with that name, holding the href of
  \<open>b2\<close>.
\<close>

theorem upsert_by_name:
  assumes same: "body_name b2 = body_name b1"
    and auth: "beforeHandle_part token (bearer req1) = None"
      "beforeHandle_part token (bearer req2) = None"
    and tgt: "target req1 = Bookmarks (PutBookmarks (Some b1))"
      "target req2 = Bookmarks (PutBookmarks (Some b2))"
    and first: "app_part token t1 req1 db = (resp1, db1)"
    and second: "app_part token t2 req2 db1 = (resp2, db2)"
  shows "(named (body_name b1) db = [] \<and> \<not> table_full db \<longrightarrow>
            resp1 = ok (Created True)
          \<and> bookmark_tbl db1 = bookmark_tbl db @ [new_row (last_id db + 1) b1 t1])
       \<and> (named (body_name b1) db = [] \<and> table_full db \<longrightarrow>
            resp1 = failed FullError \<and> db1 = db)
       \<and> (named (body_name b1) db \<noteq> [] \<longrightarrow>
            resp1 = ok (Created False)
          \<and> length (bookmark_tbl db1) = length (bookmark_tbl db)
          \<and> (\<forall>k<length (bookmark_tbl db).
                let r = bookmark_tbl db ! k; r' = bookmark_tbl db1 ! k
                in if b_name r = body_name b1
                   then r' = r\<lparr>b_href := body_href b1, b_updated_at := t1\<rparr>
                   else r' = r))
       \<and> (beforeHandle_index token (bearer req1) = None \<longrightarrow>
            app_B token t1 req1 db =
              (if named (body_name b1) db = [] \<and> table_full db then failed FullError
               else ok NoBody, db1))
       \<and> (length (named (body_name b1) db) \<le> 1
          \<and> (named (body_name b1) db \<noteq> [] \<or> \<not> table_full db) \<longrightarrow>
            resp2 = ok (Created False)
          \<and> (\<exists>r. named (body_name b1) db2 = [r] \<and> b_href r = body_href b2))"
proof -
  have r1: "respond (put_handler_part b1 t1 db) = (resp1, db1)"
    using first app_part_put [OF auth(1) tgt(1)] by simp
  have r2: "respond (put_handler_part b2 t2 db1) = (resp2, db2)"
    using second app_part_put [OF auth(2) tgt(2)] by simp
  have a: "named (body_name b1) db = [] \<and> \<not> table_full db \<longrightarrow>
            resp1 = ok (Created True)
          \<and> bookmark_tbl db1 = bookmark_tbl db @ [new_row (last_id db + 1) b1 t1]"
    using r1 by (auto simp add: put_part_absent)
  have a': "named (body_name b1) db = [] \<and> table_full db \<longrightarrow>
            resp1 = failed FullError \<and> db1 = db"
    using r1 by (auto simp add: put_part_absent)
  have b: "named (body_name b1) db \<noteq> [] \<longrightarrow>
            resp1 = ok (Created False)
          \<and> length (bookmark_tbl db1) = length (bookmark_tbl db)
          \<and> (\<forall>k<length (bookmark_tbl db).
                let r = bookmark_tbl db ! k; r' = bookmark_tbl db1 ! k
                in if b_name r = body_name b1
                   then r' = r\<lparr>b_href := body_href b1, b_updated_at := t1\<rparr>
                   else r' = r)"
  proof
    assume ne: "named (body_name b1) db \<noteq> []"
    have "(resp1, db1) = (ok (Created False),
              update_bookmark (set_body b1) (\<lambda>r. b_name r = body_name b1) t1 db)"
      using r1 put_part_present [OF ne, of t1] by simp
    then show "resp1 = ok (Created False)
          \<and> length (bookmark_tbl db1) = length (bookmark_tbl db)
          \<and> (\<forall>k<length (bookmark_tbl db).
                let r = bookmark_tbl db ! k; r' = bookmark_tbl db1 ! k
                in if b_name r = body_name b1
                   then r' = r\<lparr>b_href := body_href b1, b_updated_at := t1\<rparr>
                   else r' = r)"
      using update_by_name_rows [of db b1 t1] by (simp add: update_bookmark_tables)
  qed
  have vb: "beforeHandle_index token (bearer req1) = None \<longrightarrow>
            app_B token t1 req1 db =
              (if named (body_name b1) db = [] \<and> table_full db then failed FullError
               else ok NoBody, db1)"
    using app_B_put [OF _ tgt(1), of token t1 db] put_B_is_part [of b1 t1 db] r1 by simp
  have c: "length (named (body_name b1) db) \<le> 1
          \<and> (named (body_name b1) db \<noteq> [] \<or> \<not> table_full db) \<longrightarrow>
            resp2 = ok (Created False)
          \<and> (\<exists>r. named (body_name b1) db2 = [r] \<and> b_href r = body_href b2)"
  proof
    assume h: "length (named (body_name b1) db) \<le> 1
          \<and> (named (body_name b1) db \<noteq> [] \<or> \<not> table_full db)"
    then obtain c1 d1 x where u1: "upsert_part b1 t1 db = Inr (c1, d1)"
      and x: "named (body_name b1) d1 = [x]"
      using named_after_upsert [of b1 db t1] by blast
    have "db1 = d1" using r1 u1 by (simp add: put_handler_part_def respond_def)
    then have x1: "named (body_name b2) db1 = [x]" using x same by simp
    then have present: "named (body_name b2) db1 \<noteq> []"
      and one: "length (named (body_name b2) db1) \<le> 1"
      by simp_all
    have d: "resp2 = ok (Created False)"
      using r2 put_part_present [OF present, of t2] by simp
    obtain c2 d2 y where u2: "upsert_part b2 t2 db1 = Inr (c2, d2)"
      and y: "named (body_name b2) d2 = [y]" "b_href y = body_href b2"
      using named_after_upsert [of b2 db1 t2] one present by blast
    have "db2 = d2" using r2 u2 by (simp add: put_handler_part_def respond_def)
    then show "resp2 = ok (Created False)
          \<and> (\<exists>r. named (body_name b1) db2 = [r] \<and> b_href r = body_href b2)"
      using d y same by simp
  qed
  show ?thesis using a a' b vb c by blast
qed

theorem upsert_by_name_witness:
  "fst (app_part tok 3 (req_as tok (PutBookmarks (Some (body_n (str ''h3''))))) empty_db)
     = ok (Created True)
   \<and> fst (app_part tok 4 (req_as tok (PutBookmarks (Some (body_n (str ''h4'')))))
        (snd (app_part tok 3 (req_as tok (PutBookmarks (Some (body_n (str ''h3''))))) empty_db)))
       = ok (Created False)
   \<and> map b_href (named (str ''n'')
        (snd (app_part tok 4 (req_as tok (PutBookmarks (Some (body_n (str ''h4'')))))
          (snd (app_part tok 3 (req_as tok (PutBookmarks (Some (body_n (str ''h3'')))))
                 empty_db)))))
       = [str ''h4'']
   \<and> app_part tok 5 (req_as tok (PutBookmarks (Some (body_n (str ''h5''))))) db_full
       = (failed FullError, db_full)"
proof -
  let ?b3 = "body_n (str ''h3'')"
  let ?b4 = "body_n (str ''h4'')"
  let ?b5 = "body_n (str ''h5'')"
  let ?r1 = "req_as tok (PutBookmarks (Some ?b3))"
  let ?r2 = "req_as tok (PutBookmarks (Some ?b4))"
  let ?r5 = "req_as tok (PutBookmarks (Some ?b5))"
  have same: "body_name ?b4 = body_name ?b3" "body_name ?b5 = body_name ?b5"
    by (simp_all add: body_n_def)
  have tgt: "target ?r1 = Bookmarks (PutBookmarks (Some ?b3))"
    "target ?r2 = Bookmarks (PutBookmarks (Some ?b4))"
    "target ?r5 = Bookmarks (PutBookmarks (Some ?b5))"
    by (simp_all add: req_as_def)
  have e: "named (body_name ?b3) empty_db = []" "\<not> table_full empty_db"
    "named (body_name ?b5) db_full = []" "table_full db_full"
    by (simp_all add: named_def empty_db_def db_full_def table_full_def last_id_def max_rowid_def)
  let ?db1 = "snd (app_part tok 3 ?r1 empty_db)"
  have f1: "app_part tok 3 ?r1 empty_db = (fst (app_part tok 3 ?r1 empty_db), ?db1)"
    by simp
  have f2: "app_part tok 4 ?r2 ?db1 = (fst (app_part tok 4 ?r2 ?db1), snd (app_part tok 4 ?r2 ?db1))"
    by simp
  have f5: "app_part tok 5 ?r5 db_full
              = (fst (app_part tok 5 ?r5 db_full), snd (app_part tok 5 ?r5 db_full))"
    by simp
  have f6: "app_part tok 6 ?r5 (snd (app_part tok 5 ?r5 db_full))
              = (fst (app_part tok 6 ?r5 (snd (app_part tok 5 ?r5 db_full))),
                 snd (app_part tok 6 ?r5 (snd (app_part tok 5 ?r5 db_full))))"
    by simp
  note t = upsert_by_name [OF same(1) tok_passes(2) tok_passes(2) tgt(1) tgt(2) f1 f2]
  note t5 = upsert_by_name [OF same(2) tok_passes(2) tok_passes(2) tgt(3) tgt(3) f5 f6]
  from t have a: "fst (app_part tok 3 ?r1 empty_db) = ok (Created True)"
    using e by simp
  from t have b: "fst (app_part tok 4 ?r2 ?db1) = ok (Created False)"
    using e by simp
  from t obtain r where "named (body_name ?b3) (snd (app_part tok 4 ?r2 ?db1)) = [r]"
    and "b_href r = body_href ?b4"
    using e by auto
  then have c: "map b_href (named (str ''n'') (snd (app_part tok 4 ?r2 ?db1))) = [str ''h4'']"
    by (simp add: body_n_def)
  from t5 have d: "fst (app_part tok 5 ?r5 db_full) = failed FullError
                 \<and> snd (app_part tok 5 ?r5 db_full) = db_full"
    using e by simp
  then have d': "app_part tok 5 ?r5 db_full = (failed FullError, db_full)"
    using f5 by simp
  show ?thesis using a b c d' by simp
qed








end
